theory Spec2Isabelle
  imports Main "HOL-Library.Word"
begin

unbundle bit_operations_syntax

section \<open>Data model of Drm.cpp\<close>

type_synonym u16 = "16 word"
type_synonym u32 = "32 word"

text \<open>
  The libdrm descriptors, with the fields that Drm.cpp reads. A pointer to a descriptor
  is an \<open>option\<close>: \<open>None\<close> is the null pointer. The array \<open>modes\<close> of a connector is
  a list and \<open>count_modes\<close> is its length. The field \<open>type\<close> of a mode is \<open>mode_type\<close>
  here; the fields \<open>crtc_id\<close> and \<open>mode\<close> of a CRTC are \<open>crtc_crtc_id\<close> and \<open>crtc_mode\<close>,
  since \<open>crtc_id\<close> is also a field of an encoder and \<open>mode\<close> a field of a slot.
\<close>

record drmModeModeInfo =
  hdisplay :: u16
  vdisplay :: u16
  vrefresh :: u32
  flags :: u32
  mode_type :: u32

record drmModeConnector =
  connector_id :: u32
  encoder_id :: u32
  connector_type :: u32
  connection :: u32
  mmWidth :: u32
  mmHeight :: u32
  modes :: "drmModeModeInfo list"

record drmModeEncoder =
  encoder_type :: u32
  crtc_id :: u32

record drmModeCrtc =
  crtc_crtc_id :: u32
  buffer_id :: u32
  mode_valid :: bool
  crtc_mode :: drmModeModeInfo

text \<open>
  The resource list of the kernel: three arrays of object ids, each \<open>count_*\<close> being
  the length of its array.
\<close>

record drmModeRes =
  connectors :: "u32 list"
  encoders :: "u32 list"
  crtcs :: "u32 list"

definition DRM_MODE_CONNECTED :: u32 where
  "DRM_MODE_CONNECTED = 1"

definition DRM_MODE_TYPE_PREFERRED :: u32 where
  "DRM_MODE_TYPE_PREFERRED = 8"

text \<open>
  Modelled from the spec: the enum of Drm.h that indexes \<open>mOutputs\<close>, which is not among
  the sources. The specification has exactly two slots, so \<open>OUTPUT_MAX\<close> is 2.
\<close>

datatype slot = OUTPUT_PRIMARY | OUTPUT_EXTERNAL

text \<open>
  Modelled from the spec: the device identifiers of IDisplayDevice.h, which is not among
  the sources. The specification maps the two slots one to one to two device
  identifiers; the values are those of the primary and the external display of the
  composer interface. Every other integer is an invalid device.
\<close>

definition DEVICE_PRIMARY :: int where
  "DEVICE_PRIMARY = 0"

definition DEVICE_EXTERNAL :: int where
  "DEVICE_EXTERNAL = 1"

text \<open>
  Modelled from the spec: \<open>struct DrmOutput\<close> of Drm.h, which is not among the sources.
  The fields are those of the Output State of the specification, under the names that
  Drm.cpp uses.
\<close>

record DrmOutput =
  connector :: "drmModeConnector option"
  encoder :: "drmModeEncoder option"
  crtc :: "drmModeCrtc option"
  mode :: drmModeModeInfo
  fbHandle :: u32
  fbId :: u32
  connected :: bool

text \<open>
  Every call that leaves the module is recorded, in order, in a history. The history is
  not a member of the C++ class: it is what a test double of the kernel and of the
  buffer manager would log.
\<close>

datatype event =
    Open string
  | Close int
  | GetResources
  | FreeResources
  | GetConnector u32
  | FreeConnector drmModeConnector
  | GetEncoder u32
  | FreeEncoder drmModeEncoder
  | GetCrtc u32
  | FreeCrtc drmModeCrtc
  | AllocFrameBuffer u16 u16
  | FreeFrameBuffer u32
  | AddFB u16 u16 u32
  | RmFB u32
  | SetCrtc u32 u32 u32 drmModeModeInfo

record Drm =
  mDrmFd :: int
  mInitialized :: bool
  mOutputs :: "slot \<Rightarrow> DrmOutput"
  history :: "event list"

text \<open>
  The collaborators: the kernel (through libdrm), the buffer manager and DrmConfig.
  Each answer may depend on the whole history of calls made so far, so that any kernel
  and any allocator is an instance. \<open>allocFrameBuffer\<close> answers the handle (0 when it
  fails) and the stride; \<open>drmModeAddFB\<close> answers its return code and the id that it
  stores through its last argument when the code is 0 (on failure libdrm leaves that
  location as it was).
\<close>

record env =
  getDrmPath :: string
  getDrmConnector :: "int \<Rightarrow> u32"
  getDrmEncoder :: "int \<Rightarrow> u32"
  sys_open :: "event list \<Rightarrow> string \<Rightarrow> int"
  drmModeGetResources :: "event list \<Rightarrow> drmModeRes option"
  drmModeGetConnector :: "event list \<Rightarrow> u32 \<Rightarrow> drmModeConnector option"
  drmModeGetEncoder :: "event list \<Rightarrow> u32 \<Rightarrow> drmModeEncoder option"
  drmModeGetCrtc :: "event list \<Rightarrow> u32 \<Rightarrow> drmModeCrtc option"
  allocFrameBuffer :: "event list \<Rightarrow> u16 \<Rightarrow> u16 \<Rightarrow> u32 \<times> u32"
  drmModeAddFB :: "event list \<Rightarrow> u16 \<Rightarrow> u16 \<Rightarrow> u32 \<Rightarrow> u32 \<Rightarrow> int \<times> u32"
  drmModeSetCrtc :: "event list \<Rightarrow> u32 \<Rightarrow> u32 \<Rightarrow> u32 \<Rightarrow> drmModeModeInfo \<Rightarrow> int"

section \<open>Construction, initialize, deinitialize\<close>

definition zero_mode :: drmModeModeInfo where
  "zero_mode = \<lparr>hdisplay = 0, vdisplay = 0, vrefresh = 0, flags = 0, mode_type = 0\<rparr>"

definition zero_output :: DrmOutput where
  "zero_output = \<lparr>connector = None, encoder = None, crtc = None, mode = zero_mode,
     fbHandle = 0, fbId = 0, connected = False\<rparr>"

text \<open>The constructor: \<open>mDrmFd(0)\<close>, \<open>mInitialized(false)\<close>, \<open>mOutputs\<close> zeroed.\<close>

definition Drm_new :: Drm where
  "Drm_new = \<lparr>mDrmFd = 0, mInitialized = False, mOutputs = (\<lambda>_. zero_output), history = []\<rparr>"

definition emit :: "event \<Rightarrow> Drm \<Rightarrow> Drm" where
  "emit e d = d\<lparr>history := history d @ [e]\<rparr>"

definition upd_output :: "slot \<Rightarrow> (DrmOutput \<Rightarrow> DrmOutput) \<Rightarrow> Drm \<Rightarrow> Drm" where
  "upd_output index f d = d\<lparr>mOutputs := (mOutputs d)(index := f (mOutputs d index))\<rparr>"

text \<open>
  Modelled from the spec: the macro \<open>RETURN_FALSE_IF_NOT_INIT\<close> of HwcTrace.h, which is not
  among the sources. An operation that requires a prior successful \<open>initialize\<close> returns
  false when this test holds.
\<close>

definition not_initialized :: "Drm \<Rightarrow> bool" where
  "not_initialized d = (\<not> mInitialized d)"

definition getOutputIndex :: "int \<Rightarrow> slot option" where
  "getOutputIndex device =
     (if device = DEVICE_PRIMARY then Some OUTPUT_PRIMARY
      else if device = DEVICE_EXTERNAL then Some OUTPUT_EXTERNAL
      else None)"

definition resetOutput :: "slot \<Rightarrow> Drm \<Rightarrow> Drm" where
  "resetOutput index d =
     (let d1 = upd_output index (\<lambda>out. out\<lparr>connected := False\<rparr>) d;
          d2 = upd_output index (\<lambda>out. out\<lparr>mode := zero_mode\<rparr>) d1;
          d3 = (case connector (mOutputs d2 index) of
                  None \<Rightarrow> d2
                | Some c \<Rightarrow> upd_output index (\<lambda>out. out\<lparr>connector := None\<rparr>)
                             (emit (FreeConnector c) d2));
          d4 = (case encoder (mOutputs d3 index) of
                  None \<Rightarrow> d3
                | Some e \<Rightarrow> upd_output index (\<lambda>out. out\<lparr>encoder := None\<rparr>)
                             (emit (FreeEncoder e) d3));
          d5 = (case crtc (mOutputs d4 index) of
                  None \<Rightarrow> d4
                | Some c \<Rightarrow> upd_output index (\<lambda>out. out\<lparr>crtc := None\<rparr>)
                             (emit (FreeCrtc c) d4));
          d6 = (if fbId (mOutputs d5 index) \<noteq> 0
                then upd_output index (\<lambda>out. out\<lparr>fbId := 0\<rparr>)
                       (emit (RmFB (fbId (mOutputs d5 index))) d5)
                else d5);
          d7 = (if fbHandle (mOutputs d6 index) \<noteq> 0
                then upd_output index (\<lambda>out. out\<lparr>fbHandle := 0\<rparr>)
                       (emit (FreeFrameBuffer (fbHandle (mOutputs d6 index))) d6)
                else d6)
      in d7)"

definition initialize :: "env \<Rightarrow> Drm \<Rightarrow> bool \<times> Drm" where
  "initialize E d =
     (if mInitialized d then (True, d)
      else
        let fd = sys_open E (history d) (getDrmPath E);
            d1 = emit (Open (getDrmPath E)) (d\<lparr>mDrmFd := fd\<rparr>)
        in if fd < 0 then (False, d1)
           else (True, d1\<lparr>mOutputs := (\<lambda>_. zero_output), mInitialized := True\<rparr>))"

definition deinitialize :: "Drm \<Rightarrow> Drm" where
  "deinitialize d =
     (let d1 = resetOutput OUTPUT_PRIMARY d;
          d2 = resetOutput OUTPUT_EXTERNAL d1;
          d3 = (if mDrmFd d2 \<noteq> 0 then (emit (Close (mDrmFd d2)) d2)\<lparr>mDrmFd := 0\<rparr> else d2)
      in d3\<lparr>mInitialized := False\<rparr>)"

section \<open>Mode commit\<close>

definition isSameDrmMode :: "drmModeModeInfo \<Rightarrow> drmModeModeInfo \<Rightarrow> bool" where
  "isSameDrmMode val base =
     (hdisplay base = hdisplay val \<and> vdisplay base = vdisplay val \<and>
      vrefresh base = vrefresh val \<and> (flags base AND flags val) = flags val)"

text \<open>
  \<open>Drm::setDrmMode(int index, drmModeModeInfoPtr mode)\<close>, the private overload that
  commits a mode. The result is \<open>None\<close> when the code dereferences a null \<open>crtc\<close> or
  \<open>connector\<close>. The depth and the bits per pixel that \<open>drmModeAddFB\<close> also receives are
  constants of DrmConfig.
\<close>

definition setDrmMode_index :: "env \<Rightarrow> slot \<Rightarrow> drmModeModeInfo \<Rightarrow> Drm \<Rightarrow> (bool \<times> Drm) option" where
  "setDrmMode_index E index m d =
     (let currentMode = mode (mOutputs d index) in
      if isSameDrmMode m currentMode then Some (True, d)
      else
        let oldFbId = (if fbId (mOutputs d index) \<noteq> 0 then fbId (mOutputs d index) else 0);
            d1 = (if fbId (mOutputs d index) \<noteq> 0
                  then upd_output index (\<lambda>out. out\<lparr>fbId := 0\<rparr>) d else d);
            oldFbHandle = (if fbHandle (mOutputs d1 index) \<noteq> 0
                           then fbHandle (mOutputs d1 index) else 0);
            d2 = (if fbHandle (mOutputs d1 index) \<noteq> 0
                  then upd_output index (\<lambda>out. out\<lparr>fbHandle := 0\<rparr>) d1 else d1);
            alloc = allocFrameBuffer E (history d2) (hdisplay m) (vdisplay m);
            stride = snd alloc;
            d3 = upd_output index (\<lambda>out. out\<lparr>fbHandle := fst alloc\<rparr>)
                   (emit (AllocFrameBuffer (hdisplay m) (vdisplay m)) d2)
        in if fbHandle (mOutputs d3 index) = 0 then Some (False, d3)
           else
             let added = drmModeAddFB E (history d3) (hdisplay m) (vdisplay m) stride
                            (fbHandle (mOutputs d3 index));
                 d4 = emit (AddFB (hdisplay m) (vdisplay m) (fbHandle (mOutputs d3 index))) d3;
                 d5 = (if fst added = 0
                       then upd_output index (\<lambda>out. out\<lparr>fbId := snd added\<rparr>) d4 else d4)
             in if fst added \<noteq> 0 then Some (False, d5)
                else
                  (case crtc (mOutputs d5 index) of
                     None \<Rightarrow> None
                   | Some cr \<Rightarrow>
                      (case connector (mOutputs d5 index) of
                         None \<Rightarrow> None
                       | Some cn \<Rightarrow>
                          let ret = drmModeSetCrtc E (history d5) (crtc_crtc_id cr)
                                      (fbId (mOutputs d5 index)) (connector_id cn) m;
                              d6 = emit (SetCrtc (crtc_crtc_id cr) (fbId (mOutputs d5 index))
                                      (connector_id cn) m) d5;
                              d7 = (if ret = 0
                                    then upd_output index (\<lambda>out. out\<lparr>mode := m\<rparr>) d6 else d6);
                              d8 = (if oldFbId \<noteq> 0 then emit (RmFB oldFbId) d7 else d7);
                              d9 = (if oldFbHandle \<noteq> 0
                                    then emit (FreeFrameBuffer oldFbHandle) d8 else d8)
                          in Some (ret = 0, d9))))"

section \<open>Mode selection\<close>

definition preferred :: "drmModeModeInfo \<Rightarrow> bool" where
  "preferred m = (mode_type m AND DRM_MODE_TYPE_PREFERRED \<noteq> 0)"

text \<open>
  The loop of \<open>initDrmMode\<close>, on the modes from position \<open>i\<close> on: \<open>index\<close> starts at 0
  and the loop breaks at the first mode flagged preferred.
\<close>

fun initDrmMode_loop :: "drmModeModeInfo list \<Rightarrow> nat \<Rightarrow> nat \<Rightarrow> nat" where
  "initDrmMode_loop [] i index = index"
| "initDrmMode_loop (m # ms) i index =
     (if preferred m then i else initDrmMode_loop ms (i + 1) index)"

text \<open>
  The loop shared by \<open>setDrmMode(int device, drmModeModeInfo&)\<close> and \<open>setRefreshRate\<close>,
  which differ in the test \<open>same\<close> that breaks the loop.
\<close>

fun select_loop :: "(drmModeModeInfo \<Rightarrow> bool) \<Rightarrow> drmModeModeInfo list \<Rightarrow> nat \<Rightarrow> nat \<Rightarrow> nat" where
  "select_loop same [] i index = index"
| "select_loop same (m # ms) i index =
     (let index1 = (if preferred m then i else index)
      in if same m then i else select_loop same ms (i + 1) index1)"

definition setRefreshRate_same :: "drmModeModeInfo \<Rightarrow> int \<Rightarrow> drmModeModeInfo \<Rightarrow> bool" where
  "setRefreshRate_same current hz m =
     (hdisplay m = hdisplay current \<and> vdisplay m = vdisplay current \<and>
      vrefresh m = word_of_int hz)"

definition initDrmMode :: "env \<Rightarrow> slot \<Rightarrow> Drm \<Rightarrow> (bool \<times> Drm) option" where
  "initDrmMode E outputIndex d =
     (case connector (mOutputs d outputIndex) of
        None \<Rightarrow> None
      | Some c \<Rightarrow>
          if length (modes c) \<le> 0 then Some (False, d)
          else setDrmMode_index E outputIndex (modes c ! initDrmMode_loop (modes c) 0 0) d)"

text \<open>\<open>Drm::setDrmMode(int device, drmModeModeInfo& value)\<close>.\<close>

definition setDrmMode :: "env \<Rightarrow> int \<Rightarrow> drmModeModeInfo \<Rightarrow> Drm \<Rightarrow> (bool \<times> Drm) option" where
  "setDrmMode E device val d =
     (if not_initialized d then Some (False, d)
      else if device \<noteq> DEVICE_EXTERNAL then Some (False, d)
      else
        (case getOutputIndex device of
           None \<Rightarrow> Some (False, d)
         | Some outputIndex \<Rightarrow>
             if \<not> connected (mOutputs d outputIndex) then Some (False, d)
             else
               (case connector (mOutputs d outputIndex) of
                  None \<Rightarrow> None
                | Some c \<Rightarrow>
                    if length (modes c) \<le> 0 then Some (False, d)
                    else setDrmMode_index E outputIndex
                           (modes c ! select_loop (isSameDrmMode val) (modes c) 0 0) d)))"

definition setRefreshRate :: "env \<Rightarrow> int \<Rightarrow> int \<Rightarrow> Drm \<Rightarrow> (bool \<times> Drm) option" where
  "setRefreshRate E device hz d =
     (if not_initialized d then Some (False, d)
      else if device \<noteq> DEVICE_EXTERNAL then Some (False, d)
      else
        (case getOutputIndex device of
           None \<Rightarrow> Some (False, d)
         | Some outputIndex \<Rightarrow>
             if \<not> connected (mOutputs d outputIndex) then Some (False, d)
             else
               (case connector (mOutputs d outputIndex) of
                  None \<Rightarrow> None
                | Some c \<Rightarrow>
                    if length (modes c) \<le> 0 then Some (False, d)
                    else setDrmMode_index E outputIndex
                           (modes c ! select_loop
                              (setRefreshRate_same (mode (mOutputs d outputIndex)) hz)
                              (modes c) 0 0) d)))"

section \<open>Discovery\<close>

text \<open>
  The fallback scan for an encoder (lines 148 to 165), on the entries of
  \<open>resources->encoders\<close> from position \<open>j\<close> on. The entry that is tested against 0 is
  \<open>encoders[j]\<close>; the entry that is fetched is \<open>encoders[i]\<close>, \<open>i\<close> being the position of
  the connector in the connector list. Reading \<open>encoders[i]\<close> past the end of the array
  is a memory fault: the result is \<open>None\<close>.
\<close>

fun scan_encoders :: "env \<Rightarrow> int \<Rightarrow> slot \<Rightarrow> u32 list \<Rightarrow> nat \<Rightarrow> u32 list \<Rightarrow> Drm \<Rightarrow> Drm option" where
  "scan_encoders E device index encs i [] d = Some d"
| "scan_encoders E device index encs i (ej # rest) d =
     (if ej = 0 then scan_encoders E device index encs i rest d
      else if \<not> i < length encs then None
      else
        let d1 = emit (GetEncoder (encs ! i)) d in
        (case drmModeGetEncoder E (history d) (encs ! i) of
           None \<Rightarrow> scan_encoders E device index encs i rest d1
         | Some e \<Rightarrow>
             if encoder_type e = getDrmEncoder E device
             then Some (upd_output index (\<lambda>out. out\<lparr>encoder := Some e\<rparr>) d1)
             else scan_encoders E device index encs i rest (emit (FreeEncoder e) d1)))"

text \<open>The scan for a spare CRTC (lines 184 to 200).\<close>

fun scan_crtcs :: "env \<Rightarrow> slot \<Rightarrow> u32 list \<Rightarrow> Drm \<Rightarrow> Drm" where
  "scan_crtcs E index [] d = d"
| "scan_crtcs E index (cj # rest) d =
     (if cj = 0 then scan_crtcs E index rest d
      else
        let d1 = emit (GetCrtc cj) d in
        (case drmModeGetCrtc E (history d) cj of
           None \<Rightarrow> scan_crtcs E index rest d1
         | Some c \<Rightarrow>
             if buffer_id c = 0
             then upd_output index (\<lambda>out. out\<lparr>crtc := Some c\<rparr>) d1
             else scan_crtcs E index rest (emit (FreeCrtc c) d1)))"

text \<open>
  Lines 136 to 166: the encoder attached to the connector if it has one, else the
  fallback scan, for the connector \<open>c\<close> found at position \<open>i\<close>.
\<close>

definition resolve_encoder ::
  "env \<Rightarrow> int \<Rightarrow> slot \<Rightarrow> drmModeRes \<Rightarrow> drmModeConnector \<Rightarrow> nat \<Rightarrow> Drm \<Rightarrow> Drm option" where
  "resolve_encoder E device index res c i d =
     (let d1 = (if encoder_id c \<noteq> 0
                then upd_output index
                       (\<lambda>out. out\<lparr>encoder := drmModeGetEncoder E (history d) (encoder_id c)\<rparr>)
                       (emit (GetEncoder (encoder_id c)) d)
                else d)
      in if encoder (mOutputs d1 index) = None
         then scan_encoders E device index (encoders res) i (encoders res) d1
         else Some d1)"

text \<open>Lines 172 to 201: the CRTC attached to the encoder if it has one, else a spare one.\<close>

definition resolve_crtc :: "env \<Rightarrow> slot \<Rightarrow> drmModeRes \<Rightarrow> drmModeEncoder \<Rightarrow> Drm \<Rightarrow> Drm" where
  "resolve_crtc E index res enc d =
     (let d1 = (if crtc_id enc \<noteq> 0
                then upd_output index
                       (\<lambda>out. out\<lparr>crtc := drmModeGetCrtc E (history d) (crtc_id enc)\<rparr>)
                       (emit (GetCrtc (crtc_id enc)) d)
                else d)
      in if crtc (mOutputs d1 index) = None then scan_crtcs E index (crtcs res) d1 else d1)"

text \<open>
  The body of the connector loop from line 133 on, for a connector of the expected type
  that is connected, found at position \<open>i\<close>. It ends the loop; the result holds \<open>ret\<close>.
\<close>

definition detect_connected ::
  "env \<Rightarrow> int \<Rightarrow> slot \<Rightarrow> drmModeRes \<Rightarrow> drmModeConnector \<Rightarrow> nat \<Rightarrow> Drm \<Rightarrow> (bool \<times> Drm) option" where
  "detect_connected E device index res c i d =
     (let d1 = upd_output index (\<lambda>out. out\<lparr>connector := Some c\<rparr>) d;
          d2 = upd_output index (\<lambda>out. out\<lparr>connected := True\<rparr>) d1
      in
      (case resolve_encoder E device index res c i d2 of
         None \<Rightarrow> None
       | Some d3 \<Rightarrow>
          (case encoder (mOutputs d3 index) of
             None \<Rightarrow> Some (False, d3)
           | Some enc \<Rightarrow>
               let d4 = resolve_crtc E index res enc d3 in
               (case crtc (mOutputs d4 index) of
                  None \<Rightarrow> Some (False, d4)
                | Some cr \<Rightarrow>
                    if mode_valid cr
                    then Some (True, upd_output index (\<lambda>out. out\<lparr>mode := crtc_mode cr\<rparr>) d4)
                    else initDrmMode E index d4))))"

text \<open>
  The connector loop (lines 109 to 217), on the entries of \<open>resources->connectors\<close>
  from position \<open>i\<close> on; \<open>ret\<close> is false when the loop runs to its end.
\<close>

fun detect_loop ::
  "env \<Rightarrow> int \<Rightarrow> slot \<Rightarrow> drmModeRes \<Rightarrow> u32 list \<Rightarrow> nat \<Rightarrow> Drm \<Rightarrow> (bool \<times> Drm) option" where
  "detect_loop E device index res [] i d = Some (False, d)"
| "detect_loop E device index res (ci # rest) i d =
     (if ci = 0 then detect_loop E device index res rest (i + 1) d
      else
        let d1 = emit (GetConnector ci) d in
        (case drmModeGetConnector E (history d) ci of
           None \<Rightarrow> detect_loop E device index res rest (i + 1) d1
         | Some c \<Rightarrow>
             if connector_type c \<noteq> getDrmConnector E device
             then detect_loop E device index res rest (i + 1) (emit (FreeConnector c) d1)
             else if connection c \<noteq> DRM_MODE_CONNECTED
             then Some (True, emit (FreeConnector c) d1)
             else detect_connected E device index res c i d1))"

text \<open>Lines 219 to 232: what \<open>detect\<close> does with \<open>ret\<close> after the loop.\<close>

definition detect_finish :: "slot \<Rightarrow> bool \<times> Drm \<Rightarrow> bool \<times> Drm" where
  "detect_finish index r =
     (case r of (ret, d) \<Rightarrow>
        if \<not> ret
        then
          let ret1 = (if connector (mOutputs d index) = None \<and> index \<noteq> OUTPUT_PRIMARY
                      then True else ret)
          in (ret1, emit FreeResources (resetOutput index d))
        else (ret, emit FreeResources d))"

definition detect :: "env \<Rightarrow> int \<Rightarrow> Drm \<Rightarrow> (bool \<times> Drm) option" where
  "detect E device d =
     (if not_initialized d then Some (False, d)
      else
        (case getOutputIndex device of
           None \<Rightarrow> Some (False, d)
         | Some outputIndex \<Rightarrow>
             let d1 = resetOutput outputIndex d;
                 d2 = emit GetResources d1
             in
             (case drmModeGetResources E (history d1) of
                None \<Rightarrow> Some (False, d2)
              | Some res \<Rightarrow>
                  map_option (detect_finish outputIndex)
                    (detect_loop E device outputIndex res (connectors res) 0 d2))))"

text \<open>
  The state in which the connector loop stands after it has passed over a run of entries
  none of which is a connector of the expected type: each entry that is not 0 is fetched,
  and freed if the kernel describes it.
\<close>

fun skip_connectors :: "env \<Rightarrow> u32 list \<Rightarrow> Drm \<Rightarrow> Drm" where
  "skip_connectors E [] d = d"
| "skip_connectors E (ci # rest) d =
     (if ci = 0 then skip_connectors E rest d
      else
        let d1 = emit (GetConnector ci) d in
        (case drmModeGetConnector E (history d) ci of
           None \<Rightarrow> skip_connectors E rest d1
         | Some c \<Rightarrow> skip_connectors E rest (emit (FreeConnector c) d1)))"

text \<open>
  The breaks of lines 167 to 170 and 202 to 205: for the connected connector \<open>c\<close> found
  at position \<open>i\<close>, with line 133 reached in state \<open>d\<close>, the resolution of lines 136 to
  201 ends with no encoder in the slot, or with an encoder and no CRTC. It is false when
  the scan reads past the encoder list.
\<close>

definition unresolved ::
  "env \<Rightarrow> int \<Rightarrow> slot \<Rightarrow> drmModeRes \<Rightarrow> drmModeConnector \<Rightarrow> nat \<Rightarrow> Drm \<Rightarrow> bool" where
  "unresolved E device index res c i d =
     (let d1 = upd_output index (\<lambda>out. out\<lparr>connector := Some c\<rparr>) d;
          d2 = upd_output index (\<lambda>out. out\<lparr>connected := True\<rparr>) d1
      in
      (case resolve_encoder E device index res c i d2 of
         None \<Rightarrow> False
       | Some d3 \<Rightarrow>
          (case encoder (mOutputs d3 index) of
             None \<Rightarrow> True
           | Some enc \<Rightarrow> crtc (mOutputs (resolve_crtc E index res enc d3) index) = None)))"

section \<open>Query accessors\<close>

text \<open>
  Each accessor answers its result and the module as it leaves it. \<open>getModeInfo\<close> and
  \<open>getPhysicalSize\<close> answer \<open>None\<close> where the C++ returns false and the value they store
  through their reference arguments where it returns true. \<open>getPhysicalSize\<close>
  dereferences \<open>output->connector\<close>: the outer \<open>None\<close> is the null dereference.
\<close>

definition getModeInfo :: "int \<Rightarrow> Drm \<Rightarrow> drmModeModeInfo option \<times> Drm" where
  "getModeInfo device d =
     (case getOutputIndex device of
        None \<Rightarrow> (None, d)
      | Some outputIndex \<Rightarrow>
          if connected (mOutputs d outputIndex) = False then (None, d)
          else if hdisplay (mode (mOutputs d outputIndex)) = 0
                  \<or> vdisplay (mode (mOutputs d outputIndex)) = 0 then (None, d)
          else (Some (mode (mOutputs d outputIndex)), d))"

definition getPhysicalSize :: "int \<Rightarrow> Drm \<Rightarrow> ((u32 \<times> u32) option \<times> Drm) option" where
  "getPhysicalSize device d =
     (case getOutputIndex device of
        None \<Rightarrow> Some (None, d)
      | Some outputIndex \<Rightarrow>
          if connected (mOutputs d outputIndex) = False then Some (None, d)
          else
            (case connector (mOutputs d outputIndex) of
               None \<Rightarrow> None
             | Some c \<Rightarrow> Some (Some (mmWidth c, mmHeight c), d)))"

definition isConnected :: "int \<Rightarrow> Drm \<Rightarrow> bool \<times> Drm" where
  "isConnected device d =
     (case getOutputIndex device of
        None \<Rightarrow> (False, d)
      | Some output \<Rightarrow> (connected (mOutputs d output), d))"

section \<open>The rules of the specification\<close>

text \<open>
  The tie-break rule in the words of the specification: the first mode that matches
  exactly wins; when none matches, the last mode flagged preferred; when none is flagged,
  index 0.
\<close>

fun first_index :: "('a \<Rightarrow> bool) \<Rightarrow> 'a list \<Rightarrow> nat option" where
  "first_index P [] = None"
| "first_index P (x # xs) = (if P x then Some 0 else map_option Suc (first_index P xs))"

fun last_index :: "('a \<Rightarrow> bool) \<Rightarrow> 'a list \<Rightarrow> nat option" where
  "last_index P [] = None"
| "last_index P (x # xs) =
     (case last_index P xs of
        Some k \<Rightarrow> Some (Suc k)
      | None \<Rightarrow> if P x then Some 0 else None)"

definition spec_select :: "(drmModeModeInfo \<Rightarrow> bool) \<Rightarrow> drmModeModeInfo list \<Rightarrow> nat" where
  "spec_select exact ms =
     (case first_index exact ms of
        Some k \<Rightarrow> k
      | None \<Rightarrow> (case last_index preferred ms of Some p \<Rightarrow> p | None \<Rightarrow> 0))"

text \<open>
  The initial mode-set has no requested mode: either nothing matches exactly, or a match
  is a match of resolution with the mode recorded in the slot.
\<close>

definition never_matches :: "drmModeModeInfo \<Rightarrow> bool" where
  "never_matches m = False"

definition same_resolution :: "drmModeModeInfo \<Rightarrow> drmModeModeInfo \<Rightarrow> bool" where
  "same_resolution current m =
     (hdisplay m = hdisplay current \<and> vdisplay m = vdisplay current)"

text \<open>
  The fallback scan for an encoder in the words of the specification: every entry of the
  encoder list is fetched by its own position.
\<close>

fun spec_scan_encoders :: "env \<Rightarrow> int \<Rightarrow> slot \<Rightarrow> u32 list \<Rightarrow> Drm \<Rightarrow> Drm" where
  "spec_scan_encoders E device index [] d = d"
| "spec_scan_encoders E device index (ej # rest) d =
     (if ej = 0 then spec_scan_encoders E device index rest d
      else
        let d1 = emit (GetEncoder ej) d in
        (case drmModeGetEncoder E (history d) ej of
           None \<Rightarrow> spec_scan_encoders E device index rest d1
         | Some e \<Rightarrow>
             if encoder_type e = getDrmEncoder E device
             then upd_output index (\<lambda>out. out\<lparr>encoder := Some e\<rparr>) d1
             else spec_scan_encoders E device index rest (emit (FreeEncoder e) d1)))"

text \<open>The calls that \<open>resetOutput\<close> makes for a slot, in order.\<close>

definition reset_events :: "DrmOutput \<Rightarrow> event list" where
  "reset_events out =
     (case connector out of None \<Rightarrow> [] | Some c \<Rightarrow> [FreeConnector c]) @
     (case encoder out of None \<Rightarrow> [] | Some e \<Rightarrow> [FreeEncoder e]) @
     (case crtc out of None \<Rightarrow> [] | Some c \<Rightarrow> [FreeCrtc c]) @
     (if fbId out \<noteq> 0 then [RmFB (fbId out)] else []) @
     (if fbHandle out \<noteq> 0 then [FreeFrameBuffer (fbHandle out)] else [])"

text \<open>
  The first invariant of the Output State: a slot that is connected has a connector.
  \<open>same_connection\<close> relates two states of the module whose slots agree on both fields.
\<close>

definition slot_ok :: "DrmOutput \<Rightarrow> bool" where
  "slot_ok out = (\<not> connected out \<or> connector out \<noteq> None)"

definition connector_invariant :: "Drm \<Rightarrow> bool" where
  "connector_invariant d =
     (slot_ok (mOutputs d OUTPUT_PRIMARY) \<and> slot_ok (mOutputs d OUTPUT_EXTERNAL))"

definition same_connection :: "Drm \<Rightarrow> Drm \<Rightarrow> bool" where
  "same_connection d d' =
     (connector (mOutputs d' OUTPUT_PRIMARY) = connector (mOutputs d OUTPUT_PRIMARY) \<and>
      connected (mOutputs d' OUTPUT_PRIMARY) = connected (mOutputs d OUTPUT_PRIMARY) \<and>
      connector (mOutputs d' OUTPUT_EXTERNAL) = connector (mOutputs d OUTPUT_EXTERNAL) \<and>
      connected (mOutputs d' OUTPUT_EXTERNAL) = connected (mOutputs d OUTPUT_EXTERNAL))"

section \<open>A concrete platform\<close>

text \<open>
  One HDMI connector (id 7, type 11) with two modes, its encoder (id 3, type 2) and a
  CRTC (id 4) on which no mode is programmed. The buffer manager hands out handle 8 for
  a buffer 1920 wide and handle 9 for any other; the kernel registers handle 8 as
  framebuffer 5 and any other as framebuffer 6.
\<close>

definition ex_mode_1080 :: drmModeModeInfo where
  "ex_mode_1080 = \<lparr>hdisplay = 1920, vdisplay = 1080, vrefresh = 60, flags = 5, mode_type = 8\<rparr>"

definition ex_mode_720 :: drmModeModeInfo where
  "ex_mode_720 = \<lparr>hdisplay = 1280, vdisplay = 720, vrefresh = 60, flags = 5, mode_type = 0\<rparr>"

definition ex_hdmi :: drmModeConnector where
  "ex_hdmi = \<lparr>connector_id = 7, encoder_id = 3, connector_type = 11, connection = 1,
     mmWidth = 520, mmHeight = 290, modes = [ex_mode_1080, ex_mode_720]\<rparr>"

definition ex_encoder :: drmModeEncoder where
  "ex_encoder = \<lparr>encoder_type = 2, crtc_id = 4\<rparr>"

definition ex_dac :: drmModeEncoder where
  "ex_dac = \<lparr>encoder_type = 1, crtc_id = 0\<rparr>"

definition ex_crtc :: drmModeCrtc where
  "ex_crtc = \<lparr>crtc_crtc_id = 4, buffer_id = 0, mode_valid = False, crtc_mode = zero_mode\<rparr>"

definition ex_res :: drmModeRes where
  "ex_res = \<lparr>connectors = [7], encoders = [3], crtcs = [4]\<rparr>"

definition ex_env :: env where
  "ex_env = \<lparr>getDrmPath = ''/dev/card0'',
     getDrmConnector = (\<lambda>device. if device = DEVICE_EXTERNAL then 11 else 16),
     getDrmEncoder = (\<lambda>device. if device = DEVICE_EXTERNAL then 2 else 6),
     sys_open = (\<lambda>h p. 3),
     drmModeGetResources = (\<lambda>h. Some ex_res),
     drmModeGetConnector = (\<lambda>h i. if i = 7 then Some ex_hdmi else None),
     drmModeGetEncoder = (\<lambda>h i. if i = 3 then Some ex_encoder else None),
     drmModeGetCrtc = (\<lambda>h i. if i = 4 then Some ex_crtc else None),
     allocFrameBuffer = (\<lambda>h w v. if w = 1920 then (8, 7680) else (9, 5120)),
     drmModeAddFB = (\<lambda>h w v s b. if b = 8 then (0, 5) else (0, 6)),
     drmModeSetCrtc = (\<lambda>h c f n m. 0)\<rparr>"

text \<open>The buffer manager has no second buffer.\<close>

definition ex_no_memory :: env where
  "ex_no_memory = ex_env\<lparr>allocFrameBuffer := (\<lambda>h w v. if w = 1920 then (8, 7680) else (0, 0))\<rparr>"

text \<open>The kernel registers handle 8 and rejects any other.\<close>

definition ex_no_registration :: env where
  "ex_no_registration = ex_env\<lparr>drmModeAddFB := (\<lambda>h w v s b. if b = 8 then (0, 5) else (- 1, 0))\<rparr>"

text \<open>The kernel rejects every registration.\<close>

definition ex_never_registers :: env where
  "ex_never_registers = ex_env\<lparr>drmModeAddFB := (\<lambda>h w v s b. (- 1, 0))\<rparr>"

text \<open>
  The connector has no encoder attached; the encoder list holds a DAC (id 3) and then
  the encoder of the expected type (id 6).
\<close>

definition ex_two_encoders :: env where
  "ex_two_encoders = ex_env\<lparr>
     drmModeGetResources := (\<lambda>h. Some (ex_res\<lparr>encoders := [3, 6]\<rparr>)),
     drmModeGetConnector := (\<lambda>h i. if i = 7 then Some (ex_hdmi\<lparr>encoder_id := 0\<rparr>) else None),
     drmModeGetEncoder :=
       (\<lambda>h i. if i = 3 then Some ex_dac else if i = 6 then Some ex_encoder else None)\<rparr>"

text \<open>Connector 7 is the panel of the primary device (type 16) and reports no display.\<close>

definition ex_panel_off :: env where
  "ex_panel_off = ex_env\<lparr>drmModeGetConnector :=
     (\<lambda>h i. if i = 7 then Some (ex_hdmi\<lparr>connector_type := 16, connection := 2\<rparr>) else None)\<rparr>"

text \<open>The HDMI connector reports no display.\<close>

definition ex_hdmi_off :: env where
  "ex_hdmi_off = ex_env\<lparr>drmModeGetConnector :=
     (\<lambda>h i. if i = 7 then Some (ex_hdmi\<lparr>connection := 2\<rparr>) else None)\<rparr>"

text \<open>The kernel describes no encoder.\<close>

definition ex_no_encoder :: env where
  "ex_no_encoder = ex_env\<lparr>drmModeGetEncoder := (\<lambda>h i. None)\<rparr>"

text \<open>
  The connector has no encoder attached and the only encoder listed is a DAC; the
  encoder has no CRTC attached and the only CRTC listed drives a framebuffer; \<open>open\<close>
  answers the descriptor 0.
\<close>

definition ex_wrong_encoder :: env where
  "ex_wrong_encoder = ex_env\<lparr>
     drmModeGetConnector := (\<lambda>h i. if i = 7 then Some (ex_hdmi\<lparr>encoder_id := 0\<rparr>) else None),
     drmModeGetEncoder := (\<lambda>h i. if i = 3 then Some ex_dac else None)\<rparr>"

definition ex_busy_crtc :: env where
  "ex_busy_crtc = ex_env\<lparr>
     drmModeGetEncoder := (\<lambda>h i. if i = 3 then Some (ex_encoder\<lparr>crtc_id := 0\<rparr>) else None),
     drmModeGetCrtc := (\<lambda>h i. if i = 4 then Some (ex_crtc\<lparr>buffer_id := 12\<rparr>) else None)\<rparr>"

definition ex_fd_zero :: env where
  "ex_fd_zero = ex_env\<lparr>sys_open := (\<lambda>h p. 0)\<rparr>"

text \<open>The module after \<open>initialize\<close>.\<close>

definition ex_initialized :: Drm where
  "ex_initialized = \<lparr>mDrmFd = 3, mInitialized = True, mOutputs = (\<lambda>_. zero_output),
     history = [Open ''/dev/card0'']\<rparr>"

text \<open>The module after \<open>detect\<close> of the external device, which commits 1920x1080.\<close>

definition ex_bound_output :: DrmOutput where
  "ex_bound_output = \<lparr>connector = Some ex_hdmi, encoder = Some ex_encoder, crtc = Some ex_crtc,
     mode = ex_mode_1080, fbHandle = 8, fbId = 5, connected = True\<rparr>"

definition ex_bound :: Drm where
  "ex_bound = \<lparr>mDrmFd = 3, mInitialized = True,
     mOutputs = (\<lambda>_. zero_output)(OUTPUT_EXTERNAL := ex_bound_output),
     history = [Open ''/dev/card0'', GetResources, GetConnector 7, GetEncoder 3, GetCrtc 4,
       AllocFrameBuffer 1920 1080, AddFB 1920 1080 8, SetCrtc 4 5 7 ex_mode_1080,
       FreeResources]\<rparr>"

text \<open>The module after a commit of 1280x720 on \<open>ex_bound\<close> in which the allocation failed.\<close>

definition ex_leaked :: Drm where
  "ex_leaked = ex_bound\<lparr>
     mOutputs := (\<lambda>_. zero_output)(OUTPUT_EXTERNAL := ex_bound_output\<lparr>fbHandle := 0, fbId := 0\<rparr>),
     history := history ex_bound @ [AllocFrameBuffer 1280 720]\<rparr>"

text \<open>The module after a commit of 1280x720 on \<open>ex_bound\<close> in which the registration failed.\<close>

definition ex_unregistered :: Drm where
  "ex_unregistered = ex_bound\<lparr>
     mOutputs := (\<lambda>_. zero_output)(OUTPUT_EXTERNAL := ex_bound_output\<lparr>fbHandle := 9, fbId := 0\<rparr>),
     history := history ex_bound @ [AllocFrameBuffer 1280 720, AddFB 1280 720 9]\<rparr>"

section \<open>Basic facts\<close>

lemmas ex_defs = ex_mode_1080_def ex_mode_720_def ex_hdmi_def ex_encoder_def ex_dac_def
  ex_crtc_def ex_res_def ex_env_def ex_no_memory_def ex_no_registration_def
  ex_never_registers_def ex_two_encoders_def ex_panel_off_def ex_hdmi_off_def ex_no_encoder_def
  ex_wrong_encoder_def ex_busy_crtc_def ex_fd_zero_def
  ex_initialized_def ex_bound_output_def ex_bound_def ex_leaked_def ex_unregistered_def
  DEVICE_EXTERNAL_def DEVICE_PRIMARY_def DRM_MODE_CONNECTED_def DRM_MODE_TYPE_PREFERRED_def
  zero_output_def zero_mode_def Drm_new_def

lemmas op_defs = not_initialized_def initialize_def detect_def detect_finish_def detect_connected_def
  resolve_encoder_def resolve_crtc_def setDrmMode_def setRefreshRate_def setDrmMode_index_def
  isSameDrmMode_def setRefreshRate_same_def getOutputIndex_def emit_def upd_output_def Let_def
  preferred_def initDrmMode_def resetOutput_def

lemma upd_output_simps:
  "mOutputs (upd_output index f d) = (mOutputs d)(index := f (mOutputs d index))"
  "history (upd_output index f d) = history d"
  "mDrmFd (upd_output index f d) = mDrmFd d"
  "mInitialized (upd_output index f d) = mInitialized d"
  by (simp_all add: upd_output_def)

lemma emit_simps:
  "mOutputs (emit e d) = mOutputs d"
  "history (emit e d) = history d @ [e]"
  "mDrmFd (emit e d) = mDrmFd d"
  "mInitialized (emit e d) = mInitialized d"
  by (simp_all add: emit_def)

section \<open>The mode commit on its failure paths\<close>

text \<open>
  C1. A commit of a different mode on a slot that holds a framebuffer id and handle must
  release both on every exit path. Here the slot holds framebuffer 5 on handle 8 (the
  state that \<open>detect\<close> leaves) and the allocation for 1280x720 fails: the commit returns
  false, the slot forgets the pair, and neither \<open>drmModeRmFB\<close> nor \<open>freeFrameBuffer\<close>
  has been called for it.
\<close>

theorem commit_allocation_failure_keeps_old_pair_unreleased:
  "detect ex_no_memory DEVICE_EXTERNAL ex_initialized = Some (True, ex_bound) \<and>
   fbId (mOutputs ex_bound OUTPUT_EXTERNAL) = 5 \<and>
   fbHandle (mOutputs ex_bound OUTPUT_EXTERNAL) = 8 \<and>
   setDrmMode_index ex_no_memory OUTPUT_EXTERNAL ex_mode_720 ex_bound = Some (False, ex_leaked) \<and>
   history ex_leaked = history ex_bound @ [AllocFrameBuffer 1280 720] \<and>
   RmFB 5 \<notin> set (history ex_leaked) \<and>
   FreeFrameBuffer 8 \<notin> set (history ex_leaked) \<and>
   fbId (mOutputs ex_leaked OUTPUT_EXTERNAL) = 0 \<and>
   fbHandle (mOutputs ex_leaked OUTPUT_EXTERNAL) = 0"
  by (simp add: ex_defs op_defs)

text \<open>
  C2. Every public operation must keep the framebuffer id non-zero exactly when the
  framebuffer handle is non-zero. After \<open>initialize\<close> and \<open>detect\<close> of the external
  device, a \<open>setDrmMode\<close> whose registration the kernel rejects returns false and leaves
  the slot with handle 9 and id 0.
\<close>

theorem failed_setDrmMode_breaks_framebuffer_pairing:
  "initialize ex_no_registration Drm_new = (True, ex_initialized) \<and>
   detect ex_no_registration DEVICE_EXTERNAL ex_initialized = Some (True, ex_bound) \<and>
   setDrmMode ex_no_registration DEVICE_EXTERNAL ex_mode_720 ex_bound
     = Some (False, ex_unregistered) \<and>
   connected (mOutputs ex_unregistered OUTPUT_EXTERNAL) \<and>
   fbHandle (mOutputs ex_unregistered OUTPUT_EXTERNAL) \<noteq> 0 \<and>
   fbId (mOutputs ex_unregistered OUTPUT_EXTERNAL) = 0"
  by (simp add: ex_defs op_defs)

text \<open>
  C5. When the registration of the new buffer fails, the commit must return failure and
  release the buffer it has just allocated. Here the commit returns false after the two
  calls \<open>allocFrameBuffer\<close> and \<open>drmModeAddFB\<close>: handle 9 is not released, it stays in
  the slot with framebuffer id 0, and the previous pair is forgotten unreleased.
\<close>

theorem commit_registration_failure_keeps_new_buffer:
  "setDrmMode_index ex_no_registration OUTPUT_EXTERNAL ex_mode_720 ex_bound
     = Some (False, ex_unregistered) \<and>
   history ex_unregistered = history ex_bound @ [AllocFrameBuffer 1280 720, AddFB 1280 720 9] \<and>
   FreeFrameBuffer 9 \<notin> set (history ex_unregistered) \<and>
   FreeFrameBuffer 8 \<notin> set (history ex_unregistered) \<and>
   fbHandle (mOutputs ex_unregistered OUTPUT_EXTERNAL) = 9 \<and>
   fbId (mOutputs ex_unregistered OUTPUT_EXTERNAL) = 0"
  by (simp add: ex_defs op_defs)

text \<open>
  On the path through \<open>detect\<close> the same failure is followed by \<open>resetOutput\<close>, which
  releases the buffer just allocated.
\<close>

lemma detect_releases_unregistered_buffer:
  "map_option (\<lambda>(ret, d). (ret, history d))
     (detect ex_never_registers DEVICE_EXTERNAL ex_initialized)
   = Some (False, [Open ''/dev/card0'', GetResources, GetConnector 7, GetEncoder 3, GetCrtc 4,
       AllocFrameBuffer 1920 1080, AddFB 1920 1080 8, FreeConnector ex_hdmi,
       FreeEncoder ex_encoder, FreeCrtc ex_crtc, FreeFrameBuffer 8, FreeResources])"
  by (simp add: ex_defs op_defs)

text \<open>
  On the path that reaches \<open>drmModeSetCrtc\<close> the previous pair is released, the kernel
  framebuffer first, after the allocation, the registration and the bind attempt.
\<close>

lemma setDrmMode_index_release_after_bind:
  assumes diff: "\<not> isSameDrmMode m (mode (mOutputs d index))"
      and alloc: "allocFrameBuffer E (history d) (hdisplay m) (vdisplay m) = (h, stride)"
                 "h \<noteq> 0"
      and added: "drmModeAddFB E (history d @ [AllocFrameBuffer (hdisplay m) (vdisplay m)])
                    (hdisplay m) (vdisplay m) stride h = (0, fb)"
      and cr: "crtc (mOutputs d index) = Some cr"
      and cn: "connector (mOutputs d index) = Some cn"
  shows "\<exists>ret d'. setDrmMode_index E index m d = Some (ret, d') \<and>
           history d' = history d @
             [AllocFrameBuffer (hdisplay m) (vdisplay m), AddFB (hdisplay m) (vdisplay m) h,
              SetCrtc (crtc_crtc_id cr) fb (connector_id cn) m] @
             (if fbId (mOutputs d index) \<noteq> 0 then [RmFB (fbId (mOutputs d index))] else []) @
             (if fbHandle (mOutputs d index) \<noteq> 0
              then [FreeFrameBuffer (fbHandle (mOutputs d index))] else []) \<and>
           fbHandle (mOutputs d' index) = h \<and> fbId (mOutputs d' index) = fb"
  using assms
  by (simp add: setDrmMode_index_def Let_def upd_output_simps emit_simps)

section \<open>The no-op commit\<close>

text \<open>
  C7. For every slot state, committing a mode whose resolution and refresh equal those of
  the active mode and whose flags are a subset of its flags is a no-op success:
  \<open>setDrmMode\<close> returns true and leaves the module as it was (no call is made, so no
  buffer is allocated, and the framebuffer id, the handle and the recorded mode of the slot
  are unchanged).
\<close>

theorem setDrmMode_index_same_mode:
  assumes "hdisplay m = hdisplay (mode (mOutputs d index))"
      and "vdisplay m = vdisplay (mode (mOutputs d index))"
      and "vrefresh m = vrefresh (mode (mOutputs d index))"
      and "flags (mode (mOutputs d index)) AND flags m = flags m"
  shows "setDrmMode_index E index m d = Some (True, d)"
  using assms by (simp add: setDrmMode_index_def isSameDrmMode_def)

theorem setDrmMode_index_same_mode_witness:
  "setDrmMode_index ex_env OUTPUT_EXTERNAL (ex_mode_1080\<lparr>flags := 1, mode_type := 0\<rparr>) ex_bound
     = Some (True, ex_bound) \<and>
   flags (mode (mOutputs ex_bound OUTPUT_EXTERNAL)) = 5"
  using setDrmMode_index_same_mode
    [of "ex_mode_1080\<lparr>flags := 1, mode_type := 0\<rparr>" ex_bound OUTPUT_EXTERNAL ex_env]
  by (simp add: ex_defs)

section \<open>The explicit entry points\<close>

text \<open>
  C9. For every device identifier other than the external device, \<open>setDrmMode(device,
  mode)\<close> and \<open>setRefreshRate(device, hz)\<close> return failure and leave the module as it
  was; so only the external device reaches the mode selection and the commit.
\<close>

theorem explicit_requests_external_only:
  assumes "device \<noteq> DEVICE_EXTERNAL"
  shows "setDrmMode E device val d = Some (False, d) \<and>
         setRefreshRate E device hz d = Some (False, d)"
  using assms by (simp add: setDrmMode_def setRefreshRate_def)

theorem explicit_requests_external_only_witness:
  "setDrmMode ex_env DEVICE_PRIMARY ex_mode_720 ex_bound = Some (False, ex_bound) \<and>
   setRefreshRate ex_env DEVICE_PRIMARY 30 ex_bound = Some (False, ex_bound) \<and>
   setDrmMode ex_env 99 ex_mode_720 ex_bound = Some (False, ex_bound) \<and>
   setRefreshRate ex_env 99 30 ex_bound = Some (False, ex_bound)"
  using explicit_requests_external_only [of DEVICE_PRIMARY ex_env ex_mode_720 ex_bound 30]
    explicit_requests_external_only [of 99 ex_env ex_mode_720 ex_bound 30]
  by (simp add: DEVICE_PRIMARY_def DEVICE_EXTERNAL_def)

section \<open>The accessors\<close>

text \<open>
  C10. \<open>getModeInfo\<close>, \<open>getPhysicalSize\<close> and \<open>isConnected\<close> make no initialization
  check: their results do not depend on \<open>mInitialized\<close>. On the module as constructed,
  for every device identifier, each returns failure (false for \<open>isConnected\<close>) without a
  null dereference and leaves the module as it was.
\<close>

theorem accessors_without_initialize:
  "getModeInfo device Drm_new = (None, Drm_new) \<and>
   getPhysicalSize device Drm_new = Some (None, Drm_new) \<and>
   isConnected device Drm_new = (False, Drm_new) \<and>
   fst (getModeInfo device (d\<lparr>mInitialized := b\<rparr>)) = fst (getModeInfo device d) \<and>
   map_option fst (getPhysicalSize device (d\<lparr>mInitialized := b\<rparr>))
     = map_option fst (getPhysicalSize device d) \<and>
   fst (isConnected device (d\<lparr>mInitialized := b\<rparr>)) = fst (isConnected device d)"
  by (simp add: getModeInfo_def getPhysicalSize_def isConnected_def Drm_new_def zero_output_def
      zero_mode_def split: option.splits)

section \<open>Mode selection\<close>

lemma select_loop_eq:
  "select_loop same ms i index =
     (case first_index same ms of
        Some k \<Rightarrow> i + k
      | None \<Rightarrow> (case last_index preferred ms of Some p \<Rightarrow> i + p | None \<Rightarrow> index))"
  by (induction ms arbitrary: i index) (auto simp: Let_def split: option.splits)

lemma initDrmMode_loop_eq:
  "initDrmMode_loop ms i index =
     (case first_index preferred ms of Some k \<Rightarrow> i + k | None \<Rightarrow> index)"
  by (induction ms arbitrary: i) (auto split: option.splits)

text \<open>The index that each loop selects lies within a list that is not empty.\<close>

lemma first_index_less: "first_index P xs = Some k \<Longrightarrow> k < length xs"
  by (induction xs arbitrary: k) (auto split: if_splits)

lemma last_index_less: "last_index P xs = Some k \<Longrightarrow> k < length xs"
  by (induction xs arbitrary: k) (auto split: if_splits option.splits)

lemma select_loop_in_range:
  assumes "ms \<noteq> []"
  shows "select_loop same ms 0 0 < length ms"
  using assms
  by (auto simp: select_loop_eq split: option.splits
      dest: first_index_less last_index_less)

lemma initDrmMode_loop_in_range:
  assumes "ms \<noteq> []"
  shows "initDrmMode_loop ms 0 0 < length ms"
  using assms
  by (auto simp: initDrmMode_loop_eq split: option.splits dest: first_index_less)

text \<open>
  C3, as stated: the initial mode-set and the explicit requests select by the same rule,
  in which the last mode flagged preferred is the fallback. On a list whose two modes are
  both flagged preferred, where nothing matches exactly, the rule selects index 1 and the
  loop of \<open>initDrmMode\<close> selects index 0.
\<close>

theorem initial_mode_set_counterexample:
  "initDrmMode_loop [ex_mode_1080, ex_mode_720\<lparr>mode_type := 8\<rparr>] 0 0 = 0 \<and>
   spec_select never_matches [ex_mode_1080, ex_mode_720\<lparr>mode_type := 8\<rparr>] = 1 \<and>
   spec_select (same_resolution zero_mode) [ex_mode_1080, ex_mode_720\<lparr>mode_type := 8\<rparr>] = 1"
  by (simp add: ex_defs preferred_def spec_select_def never_matches_def same_resolution_def)

text \<open>
  C3, amended: the explicit requests select by the rule of the specification, an exact
  match being \<open>isSameDrmMode\<close> for \<open>setDrmMode\<close> (resolution, refresh, and the requested
  flags among those of the listed mode) and the resolution of the active mode with the
  requested refresh for \<open>setRefreshRate\<close>; the initial mode-set makes no search for an
  exact match and selects the first mode flagged preferred, or index 0 when none is.
\<close>

theorem mode_selection_rule:
  "select_loop (isSameDrmMode val) ms 0 0 = spec_select (isSameDrmMode val) ms \<and>
   select_loop (setRefreshRate_same cur hz) ms 0 0 = spec_select (setRefreshRate_same cur hz) ms \<and>
   initDrmMode_loop ms 0 0 = (case first_index preferred ms of Some k \<Rightarrow> k | None \<Rightarrow> 0)"
  by (simp add: select_loop_eq initDrmMode_loop_eq spec_select_def split: option.splits)

text \<open>
  The entry points commit the mode at the index that their loop selects, so the rule
  carries over to them.
\<close>

lemma explicit_requests_select_by_rule:
  assumes "mInitialized d" and "connected (mOutputs d OUTPUT_EXTERNAL)"
      and "connector (mOutputs d OUTPUT_EXTERNAL) = Some c" and "modes c \<noteq> []"
  shows "setDrmMode E DEVICE_EXTERNAL val d =
           setDrmMode_index E OUTPUT_EXTERNAL
             (modes c ! spec_select (isSameDrmMode val) (modes c)) d"
    and "setRefreshRate E DEVICE_EXTERNAL hz d =
           setDrmMode_index E OUTPUT_EXTERNAL
             (modes c ! spec_select
                (setRefreshRate_same (mode (mOutputs d OUTPUT_EXTERNAL)) hz) (modes c)) d"
  using assms
  by (simp_all add: setDrmMode_def setRefreshRate_def not_initialized_def getOutputIndex_def
      DEVICE_PRIMARY_def DEVICE_EXTERNAL_def select_loop_eq spec_select_def
      split: option.splits)

lemma initDrmMode_selects_first_preferred:
  assumes "connector (mOutputs d index) = Some c" and "modes c \<noteq> []"
  shows "initDrmMode E index d =
           setDrmMode_index E index
             (modes c ! (case first_index preferred (modes c) of Some k \<Rightarrow> k | None \<Rightarrow> 0)) d"
  using assms
  by (simp add: initDrmMode_def initDrmMode_loop_eq split: option.splits)

section \<open>Reset and teardown\<close>

lemma resetOutput_fd: "mDrmFd (resetOutput index d) = mDrmFd d"
  by (simp add: resetOutput_def Let_def upd_output_simps emit_simps split: option.splits)

lemma resetOutput_init: "mInitialized (resetOutput index d) = mInitialized d"
  by (simp add: resetOutput_def Let_def upd_output_simps emit_simps split: option.splits)

lemma resetOutput_outputs:
  "mOutputs (resetOutput index d) = (mOutputs d)(index := zero_output)"
  by (cases "mOutputs d index")
     (simp add: resetOutput_def Let_def upd_output_simps emit_simps zero_output_def fun_eq_iff
       split: option.splits)

lemma resetOutput_history:
  "history (resetOutput index d) = history d @ reset_events (mOutputs d index)"
  by (simp add: resetOutput_def Let_def upd_output_simps emit_simps reset_events_def
       split: option.splits)

lemma resetOutput_eq:
  "resetOutput index d =
     d\<lparr>mOutputs := (mOutputs d)(index := zero_output),
       history := history d @ reset_events (mOutputs d index)\<rparr>"
  by (rule Drm.equality)
     (simp_all add: resetOutput_fd resetOutput_init resetOutput_outputs resetOutput_history)


lemma deinitialize_eq:
  "deinitialize d =
     \<lparr>mDrmFd = 0, mInitialized = False, mOutputs = (\<lambda>_. zero_output),
      history = history d @ reset_events (mOutputs d OUTPUT_PRIMARY) @
        reset_events (mOutputs d OUTPUT_EXTERNAL) @
        (if mDrmFd d \<noteq> 0 then [Close (mDrmFd d)] else [])\<rparr>"
proof -
  have all: "((mOutputs d)(OUTPUT_PRIMARY := zero_output))(OUTPUT_EXTERNAL := zero_output)
      = (\<lambda>_. zero_output)"
  proof
    fix s show "(((mOutputs d)(OUTPUT_PRIMARY := zero_output))(OUTPUT_EXTERNAL := zero_output)) s
      = zero_output"
      by (cases s) simp_all
  qed
  show ?thesis
    by (rule Drm.equality) (simp_all add: deinitialize_def Let_def resetOutput_eq emit_def all)
qed



section \<open>Discovery\<close>

text \<open>
  C4. The fallback scan must fetch every entry of the encoder list by its own position
  and select the first encoder of the expected type. With the connector at position 0
  and the encoder list \<open>[3, 6]\<close>, where encoder 6 has the expected type, the scan of the
  code fetches encoder 3 twice and selects none, so \<open>detect\<close> fails; the scan by position
  selects encoder 6.
\<close>

theorem encoder_scan_fetches_by_connector_position:
  "map_option (\<lambda>d. encoder (mOutputs d OUTPUT_EXTERNAL))
     (scan_encoders ex_two_encoders DEVICE_EXTERNAL OUTPUT_EXTERNAL [3, 6] 0 [3, 6] ex_initialized)
     = Some None \<and>
   encoder (mOutputs
     (spec_scan_encoders ex_two_encoders DEVICE_EXTERNAL OUTPUT_EXTERNAL [3, 6] ex_initialized)
     OUTPUT_EXTERNAL) = Some ex_encoder \<and>
   map_option (\<lambda>(ret, d). (ret, history d))
     (detect ex_two_encoders DEVICE_EXTERNAL ex_initialized)
     = Some (False, [Open ''/dev/card0'', GetResources, GetConnector 7,
         GetEncoder 3, FreeEncoder ex_dac, GetEncoder 3, FreeEncoder ex_dac,
         FreeConnector (ex_hdmi\<lparr>encoder_id := 0\<rparr>), FreeResources])"
  by (simp add: ex_defs op_defs)

text \<open>
  C6, as stated: \<open>detect\<close> on a connector that is not connected, or whose encoder or CRTC
  cannot be resolved, succeeds for the external slot and fails for the primary slot. On
  a panel that reports no display \<open>detect\<close> of the primary device returns true; on an
  HDMI connector that is connected while the kernel describes no encoder, \<open>detect\<close> of
  the external device returns false.
\<close>

theorem detect_asymmetry_counterexample:
  "map_option fst (detect ex_panel_off DEVICE_PRIMARY ex_initialized) = Some True \<and>
   map_option fst (detect ex_no_encoder DEVICE_EXTERNAL ex_initialized) = Some False"
  by (simp add: ex_defs op_defs)

lemma detect_loop_skip:
  assumes "\<forall>h. \<forall>ci\<in>set pre. \<forall>c. drmModeGetConnector E h ci = Some c
             \<longrightarrow> connector_type c \<noteq> getDrmConnector E device"
  shows "\<exists>d'. detect_loop E device index res (pre @ rest) i d
               = detect_loop E device index res rest (i + length pre) d'
             \<and> mOutputs d' = mOutputs d"
  using assms
proof (induction pre arbitrary: i d)
  case Nil
  show ?case by (rule exI [of _ d]) simp
next
  case (Cons ci pre)
  have tl: "\<forall>h. \<forall>ci\<in>set pre. \<forall>c. drmModeGetConnector E h ci = Some c
             \<longrightarrow> connector_type c \<noteq> getDrmConnector E device"
    using Cons.prems by simp
  have step: "\<exists>d1. detect_loop E device index res ((ci # pre) @ rest) i d
                 = detect_loop E device index res (pre @ rest) (i + 1) d1
               \<and> mOutputs d1 = mOutputs d"
  proof (cases "ci = 0")
    case True
    then show ?thesis by (intro exI [of _ d]) simp
  next
    case False
    show ?thesis
    proof (cases "drmModeGetConnector E (history d) ci")
      case None
      with False show ?thesis
        by (intro exI [of _ "emit (GetConnector ci) d"]) (simp add: Let_def emit_simps)
    next
      case (Some c)
      with Cons.prems have "connector_type c \<noteq> getDrmConnector E device" by simp
      with False Some show ?thesis
        by (intro exI [of _ "emit (FreeConnector c) (emit (GetConnector ci) d)"])
           (simp add: Let_def emit_simps)
    qed
  qed
  then obtain d1 where d1: "detect_loop E device index res ((ci # pre) @ rest) i d
                 = detect_loop E device index res (pre @ rest) (i + 1) d1"
     and o1: "mOutputs d1 = mOutputs d" by blast
  from Cons.IH [OF tl, of "i + 1" d1] obtain d' where
    "detect_loop E device index res (pre @ rest) (i + 1) d1
       = detect_loop E device index res rest (i + 1 + length pre) d'" and "mOutputs d' = mOutputs d1"
    by blast
  with d1 o1 show ?case by (auto intro!: exI [of _ d'])
qed

lemma scan_encoders_frame:
  "scan_encoders E device index encs i rest d = Some d' \<Longrightarrow>
     connector (mOutputs d' index) = connector (mOutputs d index) \<and>
     crtc (mOutputs d' index) = crtc (mOutputs d index)"
proof (induction rest arbitrary: d)
  case Nil
  then show ?case by simp
next
  case (Cons ej rest)
  then show ?case
    by (fastforce simp: Let_def emit_simps upd_output_simps split: if_splits option.splits)
qed

lemma scan_encoders_total:
  assumes "rest = [] \<or> i < length encs"
  shows "\<exists>d'. scan_encoders E device index encs i rest d = Some d'"
  using assms
proof (induction rest arbitrary: d)
  case Nil
  then show ?case by simp
next
  case (Cons ej rest)
  then have i: "i < length encs" by simp
  then have IH: "\<And>d. \<exists>d'. scan_encoders E device index encs i rest d = Some d'"
    using Cons.IH by simp
  show ?case
    using i IH by (simp add: Let_def split: option.splits)
qed

lemma scan_crtcs_frame:
  "connector (mOutputs (scan_crtcs E index rest d) index) = connector (mOutputs d index)"
  by (induction rest arbitrary: d)
     (simp_all add: Let_def emit_simps upd_output_simps split: option.splits)

lemma resolve_encoder_total:
  assumes "encoders res = [] \<or> i < length (encoders res)"
  shows "\<exists>d'. resolve_encoder E device index res c i d = Some d'"
  using assms scan_encoders_total [of "encoders res" i "encoders res"]
  by (simp add: resolve_encoder_def Let_def)

lemma resolve_encoder_frame:
  assumes "resolve_encoder E device index res c i d = Some d'"
  shows "connector (mOutputs d' index) = connector (mOutputs d index) \<and>
         crtc (mOutputs d' index) = crtc (mOutputs d index)"
  using assms
  by (auto simp: resolve_encoder_def Let_def emit_simps upd_output_simps
      split: if_splits dest!: scan_encoders_frame)

lemma resolve_crtc_frame:
  "connector (mOutputs (resolve_crtc E index res enc d) index) = connector (mOutputs d index)"
  by (simp add: resolve_crtc_def Let_def scan_crtcs_frame emit_simps upd_output_simps)

lemma detect_finish_failed:
  "detect_finish index (False, d) =
     (connector (mOutputs d index) = None \<and> index \<noteq> OUTPUT_PRIMARY,
      emit FreeResources (resetOutput index d))"
  by (simp add: detect_finish_def Let_def)

lemma detect_finish_ok:
  "detect_finish index (True, d) = (True, emit FreeResources d)"
  by (simp add: detect_finish_def)

lemma zero_slot_accessors:
  assumes "getOutputIndex device = Some index" and "mOutputs d index = zero_output"
  shows "isConnected device d = (False, d) \<and> getModeInfo device d = (None, d)"
  using assms by (simp add: isConnected_def getModeInfo_def zero_output_def)

lemma detect_unfold:
  assumes "mInitialized d" and "getOutputIndex device = Some index"
      and "drmModeGetResources E (history (resetOutput index d)) = Some res"
  shows "detect E device d =
     map_option (detect_finish index)
       (detect_loop E device index res (connectors res) 0
          (emit GetResources (resetOutput index d)))"
  using assms by (simp add: detect_def not_initialized_def Let_def)

lemma detect_absent:
  assumes init: "mInitialized d" and dev: "getOutputIndex device = Some index"
      and res: "drmModeGetResources E (history (resetOutput index d)) = Some res"
      and pre: "\<forall>h. \<forall>ci\<in>set (connectors res). \<forall>c. drmModeGetConnector E h ci = Some c
                 \<longrightarrow> connector_type c \<noteq> getDrmConnector E device"
  shows "\<exists>d'. detect E device d = Some (index \<noteq> OUTPUT_PRIMARY, d')
             \<and> mOutputs d' index = zero_output"
proof -
  define d2 where "d2 = emit GetResources (resetOutput index d)"
  have z2: "mOutputs d2 index = zero_output"
    by (simp add: d2_def emit_simps resetOutput_outputs)
  obtain d3 where l: "detect_loop E device index res (connectors res @ []) 0 d2
       = detect_loop E device index res [] (0 + length (connectors res)) d3"
     and o3: "mOutputs d3 = mOutputs d2"
    using detect_loop_skip [OF pre, of index res "[]" 0 d2] by blast
  have "detect E device d = Some (detect_finish index (False, d3))"
    using detect_unfold [OF init dev res] l by (simp add: d2_def)
  moreover have "connector (mOutputs d3 index) = None"
    using o3 z2 by (simp add: zero_output_def)
  ultimately show ?thesis
    by (simp add: detect_finish_failed emit_simps resetOutput_outputs)
qed

lemma detect_not_connected:
  assumes init: "mInitialized d" and dev: "getOutputIndex device = Some index"
      and res: "drmModeGetResources E (history (resetOutput index d)) = Some res"
      and pre: "\<forall>h. \<forall>ci\<in>set pre. \<forall>c. drmModeGetConnector E h ci = Some c
                 \<longrightarrow> connector_type c \<noteq> getDrmConnector E device"
      and split: "connectors res = pre @ ci # post"
      and ci: "ci \<noteq> 0" "\<forall>h. drmModeGetConnector E h ci = Some c"
      and ty: "connector_type c = getDrmConnector E device"
      and off: "connection c \<noteq> DRM_MODE_CONNECTED"
  shows "\<exists>d'. detect E device d = Some (True, d') \<and> mOutputs d' index = zero_output"
proof -
  define d2 where "d2 = emit GetResources (resetOutput index d)"
  have z2: "mOutputs d2 index = zero_output"
    by (simp add: d2_def emit_simps resetOutput_outputs)
  obtain d3 where l: "detect_loop E device index res (pre @ ci # post) 0 d2
       = detect_loop E device index res (ci # post) (0 + length pre) d3"
     and o3: "mOutputs d3 = mOutputs d2"
    using detect_loop_skip [OF pre, of index res "ci # post" 0 d2] by blast
  have "detect_loop E device index res (ci # post) (0 + length pre) d3
      = Some (True, emit (FreeConnector c) (emit (GetConnector ci) d3))"
    using ci ty off by (simp add: Let_def)
  then have "detect E device d
      = Some (detect_finish index (True, emit (FreeConnector c) (emit (GetConnector ci) d3)))"
    using detect_unfold [OF init dev res] l split by (simp add: d2_def)
  then show ?thesis
    using o3 z2 by (simp add: detect_finish_ok emit_simps)
qed

lemma skip_connectors_outputs: "mOutputs (skip_connectors E cs d) = mOutputs d"
  by (induction cs arbitrary: d) (simp_all add: Let_def emit_simps split: option.splits)

lemma detect_loop_skip_eq:
  assumes "\<forall>h. \<forall>ci\<in>set pre. \<forall>c. drmModeGetConnector E h ci = Some c
             \<longrightarrow> connector_type c \<noteq> getDrmConnector E device"
  shows "detect_loop E device index res (pre @ rest) i d
           = detect_loop E device index res rest (i + length pre) (skip_connectors E pre d)"
  using assms
proof (induction pre arbitrary: i d)
  case Nil
  show ?case by simp
next
  case (Cons ci pre)
  have tl: "\<forall>h. \<forall>ci\<in>set pre. \<forall>c. drmModeGetConnector E h ci = Some c
             \<longrightarrow> connector_type c \<noteq> getDrmConnector E device"
    using Cons.prems by simp
  note IH = Cons.IH [OF tl]
  show ?case
  proof (cases "ci = 0")
    case True
    then show ?thesis using IH [of "i + 1" d] by simp
  next
    case False
    show ?thesis
    proof (cases "drmModeGetConnector E (history d) ci")
      case None
      with False IH [of "i + 1" "emit (GetConnector ci) d"] show ?thesis
        by (simp add: Let_def)
    next
      case (Some c)
      with Cons.prems have "connector_type c \<noteq> getDrmConnector E device" by simp
      with False Some IH [of "i + 1" "emit (FreeConnector c) (emit (GetConnector ci) d)"]
      show ?thesis by (simp add: Let_def)
    qed
  qed
qed

lemma detect_connected_unresolved_general:
  assumes "unresolved E device index res c i d"
  shows "\<exists>d'. detect_connected E device index res c i d = Some (False, d')
             \<and> connector (mOutputs d' index) = Some c"
proof -
  define d2 where "d2 = upd_output index (\<lambda>out. out\<lparr>connected := True\<rparr>)
                          (upd_output index (\<lambda>out. out\<lparr>connector := Some c\<rparr>) d)"
  have c2: "connector (mOutputs d2 index) = Some c"
    by (simp add: d2_def upd_output_simps)
  from assms obtain d3 where d3: "resolve_encoder E device index res c i d2 = Some d3"
    by (auto simp: unresolved_def Let_def d2_def split: option.splits)
  have c3: "connector (mOutputs d3 index) = Some c"
    using resolve_encoder_frame [OF d3] c2 by simp
  show ?thesis
  proof (cases "encoder (mOutputs d3 index)")
    case None
    with d3 c3 show ?thesis by (simp add: detect_connected_def Let_def d2_def)
  next
    case (Some enc)
    with assms d3 have "crtc (mOutputs (resolve_crtc E index res enc d3) index) = None"
      by (simp add: unresolved_def Let_def d2_def)
    with d3 Some c3 show ?thesis
      by (simp add: detect_connected_def Let_def d2_def resolve_crtc_frame)
  qed
qed

lemma detect_unresolved_general:
  assumes init: "mInitialized d" and dev: "getOutputIndex device = Some index"
      and res: "drmModeGetResources E (history (resetOutput index d)) = Some res"
      and pre: "\<forall>h. \<forall>ci\<in>set pre. \<forall>c. drmModeGetConnector E h ci = Some c
                 \<longrightarrow> connector_type c \<noteq> getDrmConnector E device"
      and split: "connectors res = pre @ ci # post"
      and ci: "ci \<noteq> 0" "\<forall>h. drmModeGetConnector E h ci = Some c"
      and ty: "connector_type c = getDrmConnector E device"
      and on: "connection c = DRM_MODE_CONNECTED"
      and unres: "unresolved E device index res c (length pre)
                    (emit (GetConnector ci)
                       (skip_connectors E pre (emit GetResources (resetOutput index d))))"
  shows "\<exists>d'. detect E device d = Some (False, d') \<and> mOutputs d' index = zero_output"
proof -
  define d2 where "d2 = emit GetResources (resetOutput index d)"
  define d4 where "d4 = emit (GetConnector ci) (skip_connectors E pre d2)"
  have l: "detect_loop E device index res (pre @ ci # post) 0 d2
       = detect_loop E device index res (ci # post) (0 + length pre) (skip_connectors E pre d2)"
    by (rule detect_loop_skip_eq [OF pre])
  obtain d5 where d5: "detect_connected E device index res c (length pre) d4 = Some (False, d5)"
     and c5: "connector (mOutputs d5 index) = Some c"
    using detect_connected_unresolved_general [OF unres] unfolding d4_def d2_def by blast
  have "detect_loop E device index res (ci # post) (0 + length pre) (skip_connectors E pre d2)
      = Some (False, d5)"
    using ci ty on d5 by (simp add: Let_def d4_def)
  then have "detect E device d = Some (detect_finish index (False, d5))"
    using detect_unfold [OF init dev res] l split by (simp add: d2_def)
  then show ?thesis
    using c5 by (simp add: detect_finish_failed emit_simps resetOutput_outputs)
qed

lemma scan_encoders_wrong_type:
  assumes wrong: "\<forall>h e. drmModeGetEncoder E h (encs ! i) = Some e
                    \<longrightarrow> encoder_type e \<noteq> getDrmEncoder E device"
      and bound: "rest = [] \<or> i < length encs"
  shows "\<exists>d'. scan_encoders E device index encs i rest d = Some d' \<and> mOutputs d' = mOutputs d"
  using bound
proof (induction rest arbitrary: d)
  case Nil
  show ?case by simp
next
  case (Cons ej rest)
  then have i: "i < length encs" by simp
  note IH = Cons.IH [OF disjI2, OF i]
  show ?case
  proof (cases "ej = 0")
    case True
    with IH [of d] show ?thesis by simp
  next
    case False
    show ?thesis
    proof (cases "drmModeGetEncoder E (history d) (encs ! i)")
      case None
      with False i IH [of "emit (GetEncoder (encs ! i)) d"] show ?thesis
        by (simp add: Let_def emit_simps)
    next
      case (Some e)
      with wrong have "encoder_type e \<noteq> getDrmEncoder E device" by blast
      with False i Some IH [of "emit (FreeEncoder e) (emit (GetEncoder (encs ! i)) d)"]
      show ?thesis by (simp add: Let_def emit_simps)
    qed
  qed
qed

lemma scan_encoders_answer:
  "scan_encoders E device index encs i rest d = Some d' \<Longrightarrow>
   encoder (mOutputs d index) = None \<Longrightarrow> encoder (mOutputs d' index) = Some enc \<Longrightarrow>
   \<exists>h k. drmModeGetEncoder E h k = Some enc"
proof (induction rest arbitrary: d)
  case Nil
  then show ?case by simp
next
  case (Cons ej rest)
  show ?case
  proof (cases "ej = 0")
    case True
    with Cons show ?thesis by simp
  next
    case False
    with Cons.prems have i: "i < length encs" by (simp split: if_splits)
    show ?thesis
    proof (cases "drmModeGetEncoder E (history d) (encs ! i)")
      case None
      with False i Cons.prems
      have "scan_encoders E device index encs i rest (emit (GetEncoder (encs ! i)) d) = Some d'"
        by (simp add: Let_def)
      from Cons.IH [OF this] Cons.prems show ?thesis by (simp add: emit_simps)
    next
      case (Some e)
      show ?thesis
      proof (cases "encoder_type e = getDrmEncoder E device")
        case True
        with False i Some Cons.prems have "enc = e"
          by (auto simp: Let_def upd_output_simps)
        with Some show ?thesis by blast
      next
        case ne: False
        with False i Some Cons.prems
        have "scan_encoders E device index encs i rest
                (emit (FreeEncoder e) (emit (GetEncoder (encs ! i)) d)) = Some d'"
          by (simp add: Let_def)
        from Cons.IH [OF this] Cons.prems show ?thesis by (simp add: emit_simps)
      qed
    qed
  qed
qed

lemma resolve_encoder_answer:
  assumes "resolve_encoder E device index res c i d = Some d'"
      and "encoder (mOutputs d index) = None"
      and "encoder (mOutputs d' index) = Some enc"
  shows "\<exists>h k. drmModeGetEncoder E h k = Some enc"
proof (cases "encoder_id c \<noteq> 0 \<and> drmModeGetEncoder E (history d) (encoder_id c) \<noteq> None")
  case True
  with assms have "drmModeGetEncoder E (history d) (encoder_id c) = Some enc"
    by (auto simp: resolve_encoder_def Let_def upd_output_simps emit_simps)
  then show ?thesis by blast
next
  case False
  define d1 where "d1 = (if encoder_id c \<noteq> 0
                then upd_output index
                       (\<lambda>out. out\<lparr>encoder := drmModeGetEncoder E (history d) (encoder_id c)\<rparr>)
                       (emit (GetEncoder (encoder_id c)) d)
                else d)"
  have e1: "encoder (mOutputs d1 index) = None"
    using False assms(2) by (auto simp: d1_def upd_output_simps emit_simps)
  with assms(1) have "scan_encoders E device index (encoders res) i (encoders res) d1 = Some d'"
    by (simp add: resolve_encoder_def Let_def d1_def)
  from scan_encoders_answer [OF this e1 assms(3)] show ?thesis .
qed

lemma scan_crtcs_busy:
  assumes "\<forall>h. \<forall>cj\<in>set rest. \<forall>cr. drmModeGetCrtc E h cj = Some cr \<longrightarrow> buffer_id cr \<noteq> 0"
  shows "mOutputs (scan_crtcs E index rest d) = mOutputs d"
  using assms
proof (induction rest arbitrary: d)
  case Nil
  show ?case by simp
next
  case (Cons cj rest)
  have tl: "\<forall>h. \<forall>cj\<in>set rest. \<forall>cr. drmModeGetCrtc E h cj = Some cr \<longrightarrow> buffer_id cr \<noteq> 0"
    using Cons.prems by simp
  note IH = Cons.IH [OF tl]
  show ?case
  proof (cases "drmModeGetCrtc E (history d) cj")
    case None
    then show ?thesis using IH by (simp add: Let_def emit_simps)
  next
    case (Some cr)
    with Cons.prems have "buffer_id cr \<noteq> 0" by simp
    with Some show ?thesis using IH by (simp add: Let_def emit_simps)
  qed
qed

lemma unresolved_no_encoder_of_type:
  assumes att: "encoder_id c = 0 \<or> (\<forall>h. drmModeGetEncoder E h (encoder_id c) = None)"
      and bound: "encoders res = [] \<or> i < length (encoders res)"
      and wrong: "\<forall>h e. drmModeGetEncoder E h (encoders res ! i) = Some e
                    \<longrightarrow> encoder_type e \<noteq> getDrmEncoder E device"
      and enc0: "encoder (mOutputs d index) = None"
  shows "unresolved E device index res c i d"
proof -
  define d2 where "d2 = upd_output index (\<lambda>out. out\<lparr>connected := True\<rparr>)
                          (upd_output index (\<lambda>out. out\<lparr>connector := Some c\<rparr>) d)"
  define d1 where "d1 = (if encoder_id c \<noteq> 0
                then upd_output index
                       (\<lambda>out. out\<lparr>encoder := drmModeGetEncoder E (history d2) (encoder_id c)\<rparr>)
                       (emit (GetEncoder (encoder_id c)) d2)
                else d2)"
  have e1: "encoder (mOutputs d1 index) = None"
    using att enc0 by (auto simp: d1_def d2_def upd_output_simps emit_simps)
  obtain d3 where s: "scan_encoders E device index (encoders res) i (encoders res) d1 = Some d3"
    and o: "mOutputs d3 = mOutputs d1"
    using scan_encoders_wrong_type [OF wrong bound] by blast
  have "resolve_encoder E device index res c i d2 = Some d3"
    using e1 s by (simp add: resolve_encoder_def Let_def d1_def)
  moreover have "encoder (mOutputs d3 index) = None" using o e1 by simp
  ultimately show ?thesis by (simp add: unresolved_def Let_def d2_def)
qed

lemma unresolved_no_spare_crtc:
  assumes bound: "encoders res = [] \<or> i < length (encoders res)"
      and att: "\<forall>h k enc. drmModeGetEncoder E h k = Some enc
                  \<longrightarrow> crtc_id enc = 0 \<or> (\<forall>h'. drmModeGetCrtc E h' (crtc_id enc) = None)"
      and busy: "\<forall>h. \<forall>cj\<in>set (crtcs res). \<forall>cr. drmModeGetCrtc E h cj = Some cr
                  \<longrightarrow> buffer_id cr \<noteq> 0"
      and enc0: "encoder (mOutputs d index) = None"
      and crtc0: "crtc (mOutputs d index) = None"
  shows "unresolved E device index res c i d"
proof -
  define d2 where "d2 = upd_output index (\<lambda>out. out\<lparr>connected := True\<rparr>)
                          (upd_output index (\<lambda>out. out\<lparr>connector := Some c\<rparr>) d)"
  have e2: "encoder (mOutputs d2 index) = None" and r2: "crtc (mOutputs d2 index) = None"
    using enc0 crtc0 by (simp_all add: d2_def upd_output_simps)
  obtain d3 where d3: "resolve_encoder E device index res c i d2 = Some d3"
    using resolve_encoder_total [OF bound] by blast
  have r3: "crtc (mOutputs d3 index) = None"
    using resolve_encoder_frame [OF d3] r2 by simp
  have "crtc (mOutputs (resolve_crtc E index res enc d3) index) = None"
    if enc: "encoder (mOutputs d3 index) = Some enc" for enc
  proof -
    from resolve_encoder_answer [OF d3 e2 enc] att
    have a: "crtc_id enc = 0 \<or> (\<forall>h'. drmModeGetCrtc E h' (crtc_id enc) = None)" by blast
    then show ?thesis
      using r3 by (auto simp: resolve_crtc_def Let_def upd_output_simps emit_simps
          scan_crtcs_busy [OF busy])
  qed
  with d3 show ?thesis
    by (simp add: unresolved_def Let_def d2_def split: option.splits)
qed

text \<open>
  Two ways in which the kernel leaves a connected connector unresolved: no encoder is
  attached and the encoder that the scan fetches is not of the expected type; or no
  encoder has a CRTC attached and every CRTC listed drives a framebuffer. A kernel that
  describes no encoder, or no CRTC, is an instance of each.
\<close>

lemma detect_unresolved_by_kernel:
  assumes init: "mInitialized d" and dev: "getOutputIndex device = Some index"
      and res: "drmModeGetResources E (history (resetOutput index d)) = Some res"
      and pre: "\<forall>h. \<forall>ci\<in>set pre. \<forall>c. drmModeGetConnector E h ci = Some c
                 \<longrightarrow> connector_type c \<noteq> getDrmConnector E device"
      and split: "connectors res = pre @ ci # post"
      and ci: "ci \<noteq> 0" "\<forall>h. drmModeGetConnector E h ci = Some c"
      and ty: "connector_type c = getDrmConnector E device"
      and on: "connection c = DRM_MODE_CONNECTED"
      and bound: "encoders res = [] \<or> length pre < length (encoders res)"
      and why:
        "((encoder_id c = 0 \<or> (\<forall>h. drmModeGetEncoder E h (encoder_id c) = None)) \<and>
          (\<forall>h e. drmModeGetEncoder E h (encoders res ! length pre) = Some e
                 \<longrightarrow> encoder_type e \<noteq> getDrmEncoder E device)) \<or>
         ((\<forall>h k enc. drmModeGetEncoder E h k = Some enc
                 \<longrightarrow> crtc_id enc = 0 \<or> (\<forall>h'. drmModeGetCrtc E h' (crtc_id enc) = None)) \<and>
          (\<forall>h. \<forall>cj\<in>set (crtcs res). \<forall>cr. drmModeGetCrtc E h cj = Some cr
                 \<longrightarrow> buffer_id cr \<noteq> 0))"
  shows "\<exists>d'. detect E device d = Some (False, d') \<and> mOutputs d' index = zero_output"
proof -
  define d4 where "d4 = emit (GetConnector ci)
                     (skip_connectors E pre (emit GetResources (resetOutput index d)))"
  have z: "encoder (mOutputs d4 index) = None" "crtc (mOutputs d4 index) = None"
    by (simp_all add: d4_def emit_simps skip_connectors_outputs resetOutput_outputs
        zero_output_def)
  from why have "unresolved E device index res c (length pre) d4"
  proof
    assume "(encoder_id c = 0 \<or> (\<forall>h. drmModeGetEncoder E h (encoder_id c) = None)) \<and>
          (\<forall>h e. drmModeGetEncoder E h (encoders res ! length pre) = Some e
                 \<longrightarrow> encoder_type e \<noteq> getDrmEncoder E device)"
    then show ?thesis
      using unresolved_no_encoder_of_type [OF _ bound _ z(1)] by blast
  next
    assume "(\<forall>h k enc. drmModeGetEncoder E h k = Some enc
                 \<longrightarrow> crtc_id enc = 0 \<or> (\<forall>h'. drmModeGetCrtc E h' (crtc_id enc) = None)) \<and>
          (\<forall>h. \<forall>cj\<in>set (crtcs res). \<forall>cr. drmModeGetCrtc E h cj = Some cr
                 \<longrightarrow> buffer_id cr \<noteq> 0)"
    then show ?thesis
      using unresolved_no_spare_crtc [OF bound _ _ z] by blast
  qed
  then show ?thesis
    using detect_unresolved_general [OF init dev res pre split ci ty on] by (simp add: d4_def)
qed

text \<open>
  C6, amended. On an initialized module, for the slot of a valid device, with \<open>pre\<close> a
  run of connector ids none of which the kernel describes as a connector of the expected
  type:
  \<^item> when \<open>pre\<close> is the whole connector list (no connector of the expected type), \<open>detect\<close>
    succeeds for the external slot and fails for the primary slot;
  \<^item> when the next connector has the expected type and is not connected, \<open>detect\<close> succeeds,
    for either slot;
  \<^item> when the next connector has the expected type and is connected, and its encoder or
    its CRTC cannot be resolved (\<open>unresolved\<close>, for whatever reason: none described, none
    of the expected type, no spare CRTC), \<open>detect\<close> fails, for either slot.
  In each case the slot is left zeroed, so \<open>isConnected\<close> answers false and \<open>getModeInfo\<close>
  fails afterwards.
\<close>

theorem detect_unusable_output:
  assumes init: "mInitialized d" and dev: "getOutputIndex device = Some index"
      and res: "drmModeGetResources E (history (resetOutput index d)) = Some res"
      and pre: "\<forall>h. \<forall>ci\<in>set pre. \<forall>c. drmModeGetConnector E h ci = Some c
                 \<longrightarrow> connector_type c \<noteq> getDrmConnector E device"
  shows
   "(connectors res = pre \<longrightarrow>
       (\<exists>d'. detect E device d = Some (index \<noteq> OUTPUT_PRIMARY, d') \<and>
             mOutputs d' index = zero_output \<and>
             isConnected device d' = (False, d') \<and> getModeInfo device d' = (None, d'))) \<and>
    (\<forall>ci c post.
       connectors res = pre @ ci # post \<and> ci \<noteq> 0 \<and>
       (\<forall>h. drmModeGetConnector E h ci = Some c) \<and>
       connector_type c = getDrmConnector E device \<longrightarrow>
         (connection c \<noteq> DRM_MODE_CONNECTED \<longrightarrow>
            (\<exists>d'. detect E device d = Some (True, d') \<and>
                  mOutputs d' index = zero_output \<and>
                  isConnected device d' = (False, d') \<and> getModeInfo device d' = (None, d'))) \<and>
         (connection c = DRM_MODE_CONNECTED \<and>
          unresolved E device index res c (length pre)
            (emit (GetConnector ci)
               (skip_connectors E pre (emit GetResources (resetOutput index d)))) \<longrightarrow>
            (\<exists>d'. detect E device d = Some (False, d') \<and>
                  mOutputs d' index = zero_output \<and>
                  isConnected device d' = (False, d') \<and> getModeInfo device d' = (None, d'))))"
proof (intro conjI impI allI)
  assume "connectors res = pre"
  with detect_absent [OF init dev res] pre
  obtain d' where "detect E device d = Some (index \<noteq> OUTPUT_PRIMARY, d')"
    "mOutputs d' index = zero_output" by blast
  then show "\<exists>d'. detect E device d = Some (index \<noteq> OUTPUT_PRIMARY, d') \<and>
             mOutputs d' index = zero_output \<and>
             isConnected device d' = (False, d') \<and> getModeInfo device d' = (None, d')"
    using zero_slot_accessors [OF dev] by blast
next
  fix ci c post
  assume a: "connectors res = pre @ ci # post \<and> ci \<noteq> 0 \<and>
       (\<forall>h. drmModeGetConnector E h ci = Some c) \<and>
       connector_type c = getDrmConnector E device"
    and off: "connection c \<noteq> DRM_MODE_CONNECTED"
  from a off detect_not_connected [OF init dev res pre, of ci post c]
  obtain d' where "detect E device d = Some (True, d')" "mOutputs d' index = zero_output"
    by blast
  then show "\<exists>d'. detect E device d = Some (True, d') \<and>
                  mOutputs d' index = zero_output \<and>
                  isConnected device d' = (False, d') \<and> getModeInfo device d' = (None, d')"
    using zero_slot_accessors [OF dev] by blast
next
  fix ci c post
  assume a: "connectors res = pre @ ci # post \<and> ci \<noteq> 0 \<and>
       (\<forall>h. drmModeGetConnector E h ci = Some c) \<and>
       connector_type c = getDrmConnector E device"
    and b: "connection c = DRM_MODE_CONNECTED \<and>
          unresolved E device index res c (length pre)
            (emit (GetConnector ci)
               (skip_connectors E pre (emit GetResources (resetOutput index d))))"
  from a b detect_unresolved_general [OF init dev res pre, of ci post c]
  obtain d' where "detect E device d = Some (False, d')" "mOutputs d' index = zero_output"
    by blast
  then show "\<exists>d'. detect E device d = Some (False, d') \<and>
                  mOutputs d' index = zero_output \<and>
                  isConnected device d' = (False, d') \<and> getModeInfo device d' = (None, d')"
    using zero_slot_accessors [OF dev] by blast
qed

theorem detect_unusable_output_witness:
  "map_option fst (detect ex_env DEVICE_PRIMARY ex_initialized) = Some False \<and>
   map_option fst (detect ex_panel_off DEVICE_EXTERNAL ex_initialized) = Some True \<and>
   map_option fst (detect ex_panel_off DEVICE_PRIMARY ex_initialized) = Some True \<and>
   map_option (\<lambda>(ret, d'). (ret, fst (isConnected DEVICE_EXTERNAL d'),
                  fst (getModeInfo DEVICE_EXTERNAL d')))
     (detect ex_hdmi_off DEVICE_EXTERNAL ex_initialized) = Some (True, False, None) \<and>
   map_option fst (detect ex_no_encoder DEVICE_EXTERNAL ex_initialized) = Some False \<and>
   map_option fst (detect ex_wrong_encoder DEVICE_EXTERNAL ex_initialized) = Some False \<and>
   map_option fst (detect ex_busy_crtc DEVICE_EXTERNAL ex_initialized) = Some False"
proof -
  have init: "mInitialized ex_initialized"
    by (simp add: ex_initialized_def)
  have prim: "getOutputIndex DEVICE_PRIMARY = Some OUTPUT_PRIMARY"
    and ext: "getOutputIndex DEVICE_EXTERNAL = Some OUTPUT_EXTERNAL"
    by (simp_all add: getOutputIndex_def DEVICE_PRIMARY_def DEVICE_EXTERNAL_def)
  have res: "drmModeGetResources E (history (resetOutput index ex_initialized)) = Some ex_res"
    if "E \<in> {ex_env, ex_panel_off, ex_hdmi_off, ex_no_encoder, ex_wrong_encoder, ex_busy_crtc}"
    for E index
    using that by (auto simp: ex_env_def ex_panel_off_def ex_hdmi_off_def ex_no_encoder_def
        ex_wrong_encoder_def ex_busy_crtc_def)
  have absent_prim: "\<forall>h. \<forall>ci\<in>set [7]. \<forall>c. drmModeGetConnector ex_env h ci = Some c
        \<longrightarrow> connector_type c \<noteq> getDrmConnector ex_env DEVICE_PRIMARY"
    by (simp add: ex_defs)
  have absent_ext: "\<forall>h. \<forall>ci\<in>set [7]. \<forall>c. drmModeGetConnector ex_panel_off h ci = Some c
        \<longrightarrow> connector_type c \<noteq> getDrmConnector ex_panel_off DEVICE_EXTERNAL"
    by (simp add: ex_defs)
  have nil: "\<forall>h. \<forall>ci\<in>set []. \<forall>c. drmModeGetConnector E h ci = Some c
        \<longrightarrow> connector_type c \<noteq> getDrmConnector E device" for E device
    by simp
  have a1: "map_option fst (detect ex_env DEVICE_PRIMARY ex_initialized) = Some False"
    using detect_unusable_output [OF init prim res absent_prim, THEN conjunct1]
    by (auto simp: ex_res_def)
  have a2: "map_option fst (detect ex_panel_off DEVICE_EXTERNAL ex_initialized) = Some True"
    using detect_unusable_output [OF init ext res absent_ext, THEN conjunct1]
    by (auto simp: ex_res_def)
  have b1: "map_option fst (detect ex_panel_off DEVICE_PRIMARY ex_initialized) = Some True"
    using detect_unusable_output [OF init prim res nil, where E = ex_panel_off,
        THEN conjunct2, rule_format, THEN conjunct1, rule_format,
        of 7 "[]" "ex_hdmi\<lparr>connector_type := 16, connection := 2\<rparr>"]
    by (auto simp: ex_defs)
  have b2: "map_option (\<lambda>(ret, d'). (ret, fst (isConnected DEVICE_EXTERNAL d'),
                  fst (getModeInfo DEVICE_EXTERNAL d')))
     (detect ex_hdmi_off DEVICE_EXTERNAL ex_initialized) = Some (True, False, None)"
    using detect_unusable_output [OF init ext res nil, where E = ex_hdmi_off,
        THEN conjunct2, rule_format, THEN conjunct1, rule_format,
        of 7 "[]" "ex_hdmi\<lparr>connection := 2\<rparr>"]
    by (auto simp: ex_defs)
  have c1: "map_option fst (detect ex_no_encoder DEVICE_EXTERNAL ex_initialized) = Some False"
    using detect_unusable_output [OF init ext res nil, where E = ex_no_encoder,
        THEN conjunct2, rule_format, THEN conjunct2, rule_format,
        of 7 "[]" ex_hdmi]
    by (auto simp: ex_defs unresolved_def resolve_encoder_def resolve_crtc_def resetOutput_def
        upd_output_def emit_def Let_def)
  have c2: "map_option fst (detect ex_wrong_encoder DEVICE_EXTERNAL ex_initialized) = Some False"
    using detect_unusable_output [OF init ext res nil, where E = ex_wrong_encoder,
        THEN conjunct2, rule_format, THEN conjunct2, rule_format,
        of 7 "[]" "ex_hdmi\<lparr>encoder_id := 0\<rparr>"]
    by (auto simp: ex_defs unresolved_def resolve_encoder_def resolve_crtc_def
        resetOutput_def upd_output_def emit_def Let_def)
  have c3: "map_option fst (detect ex_busy_crtc DEVICE_EXTERNAL ex_initialized) = Some False"
    using detect_unusable_output [OF init ext res nil, where E = ex_busy_crtc,
        THEN conjunct2, rule_format, THEN conjunct2, rule_format,
        of 7 "[]" ex_hdmi]
    by (auto simp: ex_defs unresolved_def resolve_encoder_def resolve_crtc_def
        resetOutput_def upd_output_def emit_def Let_def)
  from a1 a2 b1 b2 c1 c2 c3 show ?thesis by simp
qed

section \<open>The connector invariant\<close>

text \<open>
  Every public operation keeps the first invariant of the Output State: a slot that is
  connected has a connector. The mode commit, the scans and the resolution of encoder
  and CRTC leave both fields of every slot as they are.
\<close>

lemma connector_invariant_all: "connector_invariant d = (\<forall>i. slot_ok (mOutputs d i))"
  by (auto simp: connector_invariant_def) (metis slot.exhaust)+

lemma same_connection_all:
  "same_connection d d' =
     (\<forall>i. connector (mOutputs d' i) = connector (mOutputs d i) \<and>
          connected (mOutputs d' i) = connected (mOutputs d i))"
  by (auto simp: same_connection_def) (metis slot.exhaust)+

lemma same_connection_refl: "same_connection d d"
  by (simp add: same_connection_def)

lemma same_connection_trans:
  "same_connection d d' \<Longrightarrow> same_connection d' d'' \<Longrightarrow> same_connection d d''"
  by (simp add: same_connection_def)

lemma same_connection_invariant:
  "same_connection d d' \<Longrightarrow> connector_invariant d \<Longrightarrow> connector_invariant d'"
  by (simp add: same_connection_def connector_invariant_def slot_ok_def)

lemma same_connection_emit: "same_connection d (emit e d)"
  by (simp add: same_connection_def emit_simps)

lemma same_connection_upd:
  assumes "\<And>out. connector (f out) = connector out" "\<And>out. connected (f out) = connected out"
  shows "same_connection d (upd_output index f d)"
  using assms by (simp add: same_connection_def upd_output_simps)

lemma setDrmMode_index_conn:
  assumes "setDrmMode_index E index m d = Some (r, d')"
  shows "same_connection d d'"
  using assms
  by (auto simp: setDrmMode_index_def Let_def same_connection_def upd_output_simps emit_simps
      split: if_splits option.splits)

lemma initDrmMode_conn:
  assumes "initDrmMode E index d = Some (r, d')"
  shows "same_connection d d'"
  using assms
  by (auto simp: initDrmMode_def same_connection_refl split: option.splits if_splits
      dest: setDrmMode_index_conn)

lemma scan_encoders_conn:
  "scan_encoders E device index encs i rest d = Some d' \<Longrightarrow> same_connection d d'"
proof (induction rest arbitrary: d)
  case Nil
  then show ?case by (simp add: same_connection_refl)
next
  case (Cons ej rest)
  show ?case
  proof (cases "ej = 0")
    case True
    with Cons show ?thesis by simp
  next
    case False
    with Cons.prems have i: "i < length encs" by (simp split: if_splits)
    define d1 where "d1 = emit (GetEncoder (encs ! i)) d"
    have s1: "same_connection d d1" by (simp add: d1_def same_connection_emit)
    show ?thesis
    proof (cases "drmModeGetEncoder E (history d) (encs ! i)")
      case None
      with False i Cons.prems have "scan_encoders E device index encs i rest d1 = Some d'"
        by (simp add: Let_def d1_def)
      from Cons.IH [OF this] s1 show ?thesis by (rule same_connection_trans [rotated])
    next
      case (Some e)
      show ?thesis
      proof (cases "encoder_type e = getDrmEncoder E device")
        case True
        with False i Some Cons.prems
        have "d' = upd_output index (\<lambda>out. out\<lparr>encoder := Some e\<rparr>) d1"
          by (simp add: Let_def d1_def)
        then have "same_connection d1 d'" by (simp add: same_connection_upd)
        with s1 show ?thesis by (rule same_connection_trans)
      next
        case ne: False
        with False i Some Cons.prems
        have "scan_encoders E device index encs i rest (emit (FreeEncoder e) d1) = Some d'"
          by (simp add: Let_def d1_def)
        from Cons.IH [OF this] have "same_connection (emit (FreeEncoder e) d1) d'" .
        with same_connection_emit [of d1 "FreeEncoder e"] have "same_connection d1 d'"
          by (rule same_connection_trans)
        with s1 show ?thesis by (rule same_connection_trans)
      qed
    qed
  qed
qed

lemma scan_crtcs_conn: "same_connection d (scan_crtcs E index rest d)"
proof (induction rest arbitrary: d)
  case Nil
  show ?case by (simp add: same_connection_refl)
next
  case (Cons cj rest)
  show ?case
  proof (cases "cj = 0")
    case True
    with Cons show ?thesis by simp
  next
    case False
    define d1 where "d1 = emit (GetCrtc cj) d"
    have s1: "same_connection d d1" by (simp add: d1_def same_connection_emit)
    show ?thesis
    proof (cases "drmModeGetCrtc E (history d) cj")
      case None
      with False have "scan_crtcs E index (cj # rest) d = scan_crtcs E index rest d1"
        by (simp add: Let_def d1_def)
      with Cons.IH [of d1] s1 show ?thesis by (simp add: same_connection_trans)
    next
      case (Some c)
      show ?thesis
      proof (cases "buffer_id c = 0")
        case True
        with False Some have "scan_crtcs E index (cj # rest) d
            = upd_output index (\<lambda>out. out\<lparr>crtc := Some c\<rparr>) d1"
          by (simp add: Let_def d1_def)
        with s1 show ?thesis
          by (simp add: same_connection_trans [OF _ same_connection_upd])
      next
        case busy: False
        with False Some have "scan_crtcs E index (cj # rest) d
            = scan_crtcs E index rest (emit (FreeCrtc c) d1)"
          by (simp add: Let_def d1_def)
        with Cons.IH [of "emit (FreeCrtc c) d1"] s1 same_connection_emit [of d1 "FreeCrtc c"]
        show ?thesis by (metis same_connection_trans)
      qed
    qed
  qed
qed

lemma resolve_encoder_conn:
  assumes "resolve_encoder E device index res c i d = Some d'"
  shows "same_connection d d'"
proof -
  define d1 where "d1 = (if encoder_id c \<noteq> 0
                then upd_output index
                       (\<lambda>out. out\<lparr>encoder := drmModeGetEncoder E (history d) (encoder_id c)\<rparr>)
                       (emit (GetEncoder (encoder_id c)) d)
                else d)"
  have s1: "same_connection d d1"
    by (simp add: d1_def same_connection_refl
        same_connection_trans [OF same_connection_emit same_connection_upd])
  have "d' = d1 \<or> scan_encoders E device index (encoders res) i (encoders res) d1 = Some d'"
    using assms by (auto simp: resolve_encoder_def Let_def d1_def split: if_splits)
  then have "same_connection d1 d'"
    by (auto simp: same_connection_refl dest: scan_encoders_conn)
  with s1 show ?thesis by (rule same_connection_trans)
qed

lemma resolve_crtc_conn: "same_connection d (resolve_crtc E index res enc d)"
proof -
  define d1 where "d1 = (if crtc_id enc \<noteq> 0
                then upd_output index
                       (\<lambda>out. out\<lparr>crtc := drmModeGetCrtc E (history d) (crtc_id enc)\<rparr>)
                       (emit (GetCrtc (crtc_id enc)) d)
                else d)"
  have s1: "same_connection d d1"
    by (simp add: d1_def same_connection_refl
        same_connection_trans [OF same_connection_emit same_connection_upd])
  have "resolve_crtc E index res enc d = d1
      \<or> resolve_crtc E index res enc d = scan_crtcs E index (crtcs res) d1"
    by (simp add: resolve_crtc_def Let_def d1_def)
  then have "same_connection d1 (resolve_crtc E index res enc d)"
    by (auto simp: same_connection_refl scan_crtcs_conn)
  with s1 show ?thesis by (rule same_connection_trans)
qed

lemma connector_invariant_emit: "connector_invariant (emit e d) = connector_invariant d"
  by (simp add: connector_invariant_def emit_simps)

lemma connector_invariant_reset:
  "connector_invariant d \<Longrightarrow> connector_invariant (resetOutput index d)"
  by (cases index)
     (simp_all add: connector_invariant_def resetOutput_outputs slot_ok_def zero_output_def)

lemma detect_connected_invariant:
  assumes run: "detect_connected E device index res c i d = Some (r, d')"
      and inv: "connector_invariant d"
  shows "connector_invariant d'"
proof -
  define d2 where "d2 = upd_output index (\<lambda>out. out\<lparr>connected := True\<rparr>)
                          (upd_output index (\<lambda>out. out\<lparr>connector := Some c\<rparr>) d)"
  have inv2: "connector_invariant d2"
    using inv by (cases index)
      (simp_all add: d2_def connector_invariant_def slot_ok_def upd_output_simps)
  from run obtain d3 where d3: "resolve_encoder E device index res c i d2 = Some d3"
    by (auto simp: detect_connected_def Let_def d2_def split: option.splits)
  have inv3: "connector_invariant d3"
    using resolve_encoder_conn [OF d3] inv2 by (rule same_connection_invariant)
  show ?thesis
  proof (cases "encoder (mOutputs d3 index)")
    case None
    with run d3 have "d' = d3" by (simp add: detect_connected_def Let_def d2_def)
    with inv3 show ?thesis by simp
  next
    case (Some enc)
    define d4 where "d4 = resolve_crtc E index res enc d3"
    have inv4: "connector_invariant d4"
      using resolve_crtc_conn inv3 unfolding d4_def by (rule same_connection_invariant)
    show ?thesis
    proof (cases "crtc (mOutputs d4 index)")
      case None
      with run d3 Some have "d' = d4"
        by (simp add: detect_connected_def Let_def d2_def d4_def)
      with inv4 show ?thesis by simp
    next
      case cr: (Some cr)
      show ?thesis
      proof (cases "mode_valid cr")
        case True
        with run d3 Some cr
        have "d' = upd_output index (\<lambda>out. out\<lparr>mode := crtc_mode cr\<rparr>) d4"
          by (simp add: detect_connected_def Let_def d2_def d4_def)
        then have "same_connection d4 d'" by (simp add: same_connection_upd)
        then show ?thesis using inv4 by (rule same_connection_invariant)
      next
        case False
        with run d3 Some cr have "initDrmMode E index d4 = Some (r, d')"
          by (simp add: detect_connected_def Let_def d2_def d4_def)
        from initDrmMode_conn [OF this] inv4 show ?thesis by (rule same_connection_invariant)
      qed
    qed
  qed
qed

lemma detect_loop_invariant:
  "detect_loop E device index res rest i d = Some (r, d') \<Longrightarrow> connector_invariant d
     \<Longrightarrow> connector_invariant d'"
proof (induction rest arbitrary: i d)
  case Nil
  then show ?case by simp
next
  case (Cons ci rest)
  show ?case
  proof (cases "ci = 0")
    case True
    with Cons show ?thesis by simp
  next
    case False
    define d1 where "d1 = emit (GetConnector ci) d"
    have inv1: "connector_invariant d1"
      using Cons.prems by (simp add: d1_def connector_invariant_emit)
    show ?thesis
    proof (cases "drmModeGetConnector E (history d) ci")
      case None
      with False Cons.prems have "detect_loop E device index res rest (i + 1) d1 = Some (r, d')"
        by (simp add: Let_def d1_def)
      from Cons.IH [OF this inv1] show ?thesis .
    next
      case (Some c)
      consider (other) "connector_type c \<noteq> getDrmConnector E device"
        | (off) "connector_type c = getDrmConnector E device"
                "connection c \<noteq> DRM_MODE_CONNECTED"
        | (on) "connector_type c = getDrmConnector E device"
               "connection c = DRM_MODE_CONNECTED"
        by blast
      then show ?thesis
      proof cases
        case other
        with False Some Cons.prems
        have "detect_loop E device index res rest (i + 1) (emit (FreeConnector c) d1)
                = Some (r, d')"
          by (simp add: Let_def d1_def)
        from Cons.IH [OF this] inv1 show ?thesis by (simp add: connector_invariant_emit)
      next
        case off
        with False Some Cons.prems have "d' = emit (FreeConnector c) d1"
          by (simp add: Let_def d1_def)
        with inv1 show ?thesis by (simp add: connector_invariant_emit)
      next
        case on
        with False Some Cons.prems
        have "detect_connected E device index res c i d1 = Some (r, d')"
          by (simp add: Let_def d1_def)
        from detect_connected_invariant [OF this inv1] show ?thesis .
      qed
    qed
  qed
qed

lemma detect_finish_invariant:
  "connector_invariant d \<Longrightarrow> connector_invariant (snd (detect_finish index (r, d)))"
  by (simp add: detect_finish_def Let_def connector_invariant_emit connector_invariant_reset)

lemma detect_invariant:
  assumes "detect E device d = Some (r, d')" and "connector_invariant d"
  shows "connector_invariant d'"
proof (cases "mInitialized d")
  case False
  with assms show ?thesis by (simp add: detect_def not_initialized_def)
next
  case True
  show ?thesis
  proof (cases "getOutputIndex device")
    case None
    with True assms show ?thesis by (simp add: detect_def not_initialized_def)
  next
    case (Some index)
    define d2 where "d2 = emit GetResources (resetOutput index d)"
    have inv2: "connector_invariant d2"
      using assms(2) by (simp add: d2_def connector_invariant_emit connector_invariant_reset)
    show ?thesis
    proof (cases "drmModeGetResources E (history (resetOutput index d))")
      case None
      with True Some assms(1) have "d' = d2" by (simp add: detect_def not_initialized_def Let_def d2_def)
      with inv2 show ?thesis by simp
    next
      case res: (Some res)
      with True Some assms(1) obtain r3 d3 where
        l: "detect_loop E device index res (connectors res) 0 d2 = Some (r3, d3)"
        and f: "(r, d') = detect_finish index (r3, d3)"
        by (auto simp: detect_def not_initialized_def Let_def d2_def)
      from detect_loop_invariant [OF l inv2] have "connector_invariant d3" .
      from detect_finish_invariant [OF this, of index r3] f show ?thesis
        by (metis snd_conv)
    qed
  qed
qed

lemma initialize_invariant:
  "connector_invariant d \<Longrightarrow> connector_invariant (snd (initialize E d))"
  by (simp add: initialize_def Let_def connector_invariant_def slot_ok_def zero_output_def
      emit_def)

lemma deinitialize_invariant: "connector_invariant (deinitialize d)"
  by (simp add: deinitialize_eq connector_invariant_def slot_ok_def zero_output_def)

lemma setDrmMode_invariant:
  assumes "setDrmMode E device val d = Some (r, d')" and "connector_invariant d"
  shows "connector_invariant d'"
proof -
  have "d' = d \<or> (\<exists>index m. setDrmMode_index E index m d = Some (r, d'))"
    using assms(1)
    by (auto simp: setDrmMode_def not_initialized_def split: if_splits option.splits)
  then show ?thesis
    using assms(2) by (auto dest!: setDrmMode_index_conn intro: same_connection_invariant)
qed

lemma setRefreshRate_invariant:
  assumes "setRefreshRate E device hz d = Some (r, d')" and "connector_invariant d"
  shows "connector_invariant d'"
proof -
  have "d' = d \<or> (\<exists>index m. setDrmMode_index E index m d = Some (r, d'))"
    using assms(1)
    by (auto simp: setRefreshRate_def not_initialized_def split: if_splits option.splits)
  then show ?thesis
    using assms(2) by (auto dest!: setDrmMode_index_conn intro: same_connection_invariant)
qed

lemma connector_invariant_new: "connector_invariant Drm_new"
  by (simp add: connector_invariant_def slot_ok_def Drm_new_def zero_output_def)

end
